theory Spec2Isabelle
  imports Complex_Main "HOL-Library.AList" "HOL-Library.Sublist"
begin

section \<open>Python values, errors and the store\<close>

text \<open>
  The agents are AWS Lambda handlers written in Python. They pass JSON-shaped values
  around: the event, DynamoDB items sanitised by \<open>sanitize_for_json\<close>, results. A
  dictionary is an association list with unique keys (read with \<open>map_of\<close>, written
  with \<open>AList.update\<close>). Numbers are kept exact: the \<open>Decimal\<close> of the store and the
  \<open>int\<close>/\<open>float\<close> that \<open>sanitize_for_json\<close> turns it into are read as the number they
  denote, so \<open>sanitize_for_json\<close> and the \<open>json.loads(json.dumps(...))\<close> round trips
  of the handlers are the identity on this type (float rounding is not modelled).
\<close>

datatype json =
    JNull
  | JBool bool
  | JInt int
  | JFloat rat
  | JStr string
  | JList "json list"
  | JObj "(string \<times> json) list"

datatype py_error =
    KeyError string
  | TypeError
  | AttributeError
  | IndexError
  | ValueError string
  | ClientError string
  | JSONDecodeError
  | RuntimeError string

text \<open>A call either returns or raises: \<open>Inl\<close> is the exception.\<close>

type_synonym 'a result = "py_error + 'a"

definition bindE :: "'a result \<Rightarrow> ('a \<Rightarrow> 'b result) \<Rightarrow> 'b result" where
  "bindE m f = (case m of Inl e \<Rightarrow> Inl e | Inr x \<Rightarrow> f x)"

text \<open>Python truthiness (\<open>if x:\<close>, \<open>not x\<close>, \<open>a if x else b\<close>).\<close>

fun truthy :: "json \<Rightarrow> bool" where
  "truthy JNull = False"
| "truthy (JBool b) = b"
| "truthy (JInt n) = (n \<noteq> 0)"
| "truthy (JFloat r) = (r \<noteq> 0)"
| "truthy (JStr s) = (s \<noteq> [])"
| "truthy (JList xs) = (xs \<noteq> [])"
| "truthy (JObj kvs) = (kvs \<noteq> [])"

text \<open>\<open>d.get(k, default)\<close>: only a dict has \<open>get\<close>.\<close>

fun py_get :: "json \<Rightarrow> string \<Rightarrow> json \<Rightarrow> json result" where
  "py_get (JObj kvs) k d = Inr (case map_of kvs k of Some v \<Rightarrow> v | None \<Rightarrow> d)"
| "py_get _ k d = Inl AttributeError"

text \<open>\<open>d[k]\<close> with a string key: KeyError on a dict without the key, TypeError on
  anything that is not a dict.\<close>

fun py_item :: "json \<Rightarrow> string \<Rightarrow> json result" where
  "py_item (JObj kvs) k = (case map_of kvs k of Some v \<Rightarrow> Inr v | None \<Rightarrow> Inl (KeyError k))"
| "py_item _ k = Inl TypeError"

text \<open>\<open>x < k\<close> for an integer constant \<open>k\<close>: numbers compare (a bool is an int),
  everything else raises TypeError.\<close>

fun py_lt_int :: "json \<Rightarrow> int \<Rightarrow> bool result" where
  "py_lt_int (JInt n) k = Inr (n < k)"
| "py_lt_int (JBool b) k = Inr ((if b then 1 else 0) < k)"
| "py_lt_int (JFloat r) k = Inr (r < of_int k)"
| "py_lt_int _ k = Inl TypeError"

text \<open>Decimal digits of a natural number, and \<open>str\<close> of an int.\<close>

fun dec_digits :: "nat \<Rightarrow> string" where
  "dec_digits n =
     (if n < 10 then [''0123456789'' ! n]
      else dec_digits (n div 10) @ [''0123456789'' ! (n mod 10)])"

declare dec_digits.simps [simp del]

definition str_int :: "int \<Rightarrow> string" where
  "str_int n = (if n < 0 then CHR ''-'' # dec_digits (nat (- n)) else dec_digits (nat n))"

text \<open>
  \<open>str(x)\<close>, as an f-string applies it. The text Python prints for a float, a list or
  a dict (their \<open>repr\<close>) is taken from the parameter \<open>R\<close>.
\<close>

fun py_str :: "(json \<Rightarrow> string) \<Rightarrow> json \<Rightarrow> string" where
  "py_str R (JStr s) = s"
| "py_str R JNull = ''None''"
| "py_str R (JBool b) = (if b then ''True'' else ''False'')"
| "py_str R (JInt n) = str_int n"
| "py_str R v = R v"

text \<open>
  The DynamoDB table: one item per (PK, SK). \<open>put_item\<close> overwrites the whole item. It
  raises when the item has no string PK and SK, and whenever the service refuses the
  write; the latter is the environment's choice, given as the predicate \<open>accepts\<close>.
\<close>

type_synonym table = "((string \<times> string) \<times> json) list"

definition item_key :: "json \<Rightarrow> (string \<times> string) option" where
  "item_key item =
     (case item of
        JObj kvs \<Rightarrow>
          (case (map_of kvs ''PK'', map_of kvs ''SK'') of
             (Some (JStr pk), Some (JStr sk)) \<Rightarrow> Some (pk, sk)
           | _ \<Rightarrow> None)
      | _ \<Rightarrow> None)"

definition put_item :: "(json \<Rightarrow> bool) \<Rightarrow> table \<Rightarrow> json \<Rightarrow> table result" where
  "put_item accepts t item =
     (case item_key item of
        None \<Rightarrow> Inl (ClientError ''ValidationException'')
      | Some k \<Rightarrow>
          if accepts item then Inr (AList.update k item t)
          else Inl (ClientError ''ServiceError''))"


text \<open>
  A reply of a language model, as the handlers read it: the call raises (\<open>Inl\<close>), or it
  returns a text in which \<open>re.search(r'(\{.*\}|\[.*\])')\<close> finds nothing, or finds a
  text that \<open>json.loads\<close> rejects, or finds a text that \<open>json.loads\<close> turns into a value.
\<close>

datatype parsed_text = NoJsonFound | JsonInvalid | JsonValue json

text \<open>
  What one invocation takes from outside the program: the clock, the random
  identifiers, the text Python prints for compound values, and whether the store
  accepts a write.
\<close>

record env =
  py_repr :: "json \<Rightarrow> string"
  utcnow_iso :: string
  ticket_utcnow_iso :: string
  uuid4_hex :: string
  uuid4_str :: string
  put_accepts :: "json \<Rightarrow> bool"
  get_accepts :: "string \<times> string \<Rightarrow> bool"
  sha256_json :: "json \<Rightarrow> string"
  mutation_reply :: "rat \<Rightarrow> parsed_text result"
  audit_reply :: "string result"
  exception_text :: "py_error \<Rightarrow> string"
  int_of_text :: "string \<Rightarrow> int option"
  converse_text :: "string \<Rightarrow> string \<Rightarrow> json \<Rightarrow> json result"
  comparator_reply :: "parsed_text result"
  compliance_reply :: "parsed_text result"

text \<open>\<open>table.get_item(Key={'PK': pk, 'SK': sk})\<close>: the response holds the item, or
  nothing. The read raises when the key is not a pair of strings and whenever the
  service does not answer (\<open>get_accepts\<close>).\<close>

definition table_get_item :: "env \<Rightarrow> table \<Rightarrow> json \<Rightarrow> json \<Rightarrow> json option result" where
  "table_get_item E t pk sk =
     (case (pk, sk) of
        (JStr p, JStr s) \<Rightarrow>
          if get_accepts E (p, s) then Inr (map_of t (p, s))
          else Inl (ClientError ''ServiceError'')
      | _ \<Rightarrow> Inl (ClientError ''ValidationException''))"

section \<open>Escalation: the failure handlers of Judge and Supervisor\<close>

text \<open>An optional argument that is falsy is replaced by a placeholder:
  \<open>x if x else "NONE"\<close>.\<close>

definition or_else :: "json \<Rightarrow> string \<Rightarrow> json" where
  "or_else x d = (if truthy x then x else JStr d)"

text \<open>The write of a ticket sits in \<open>try/except Exception\<close>: a refused write is
  logged and the handler goes on.\<close>

definition try_put_ticket :: "env \<Rightarrow> table \<Rightarrow> json \<Rightarrow> table" where
  "try_put_ticket E t ticket_item =
     (case put_item (put_accepts E) t ticket_item of Inr t' \<Rightarrow> t' | Inl e \<Rightarrow> t)"

definition judge_ticket_id :: "env \<Rightarrow> string" where
  "judge_ticket_id E = ''xyz-'' @ take 6 (uuid4_hex E)"

definition ticket_sk_of :: "env \<Rightarrow> json \<Rightarrow> string \<Rightarrow> string" where
  "ticket_sk_of E genome_sk ticket_id = py_str (py_repr E) genome_sk @ ''#TICKET#'' @ ticket_id"

definition judge_ticket_item :: "env \<Rightarrow> json \<Rightarrow> json \<Rightarrow> json \<Rightarrow> string \<Rightarrow> json \<Rightarrow> json" where
  "judge_ticket_item E pk genome_sk chat_sk reason failed_challenger =
     JObj [(''PK'', pk),
           (''SK'', JStr (ticket_sk_of E genome_sk (judge_ticket_id E))),
           (''EntityType'', JStr ''Ticket''),
           (''timestamp'', JStr (ticket_utcnow_iso E @ ''Z'')),
           (''type'', JStr ''SYSTEM''),
           (''status'', JStr ''OPEN''),
           (''chat_sk'', chat_sk),
           (''challenger_sk'', or_else failed_challenger ''NONE_SELECTED''),
           (''feedback'', JStr ''Automated Alert: Judge marked evolution as FAIL after retries.''),
           (''ai_analysis'', JStr reason)]"

definition judge_handle_failure ::
  "env \<Rightarrow> table \<Rightarrow> json \<Rightarrow> json \<Rightarrow> json \<Rightarrow> json \<Rightarrow> string \<Rightarrow> json \<Rightarrow> (json \<times> table) result" where
  "judge_handle_failure E t pk genome_sk chat_sk retry_count reason failed_challenger =
     bindE (py_lt_int retry_count 1) (\<lambda>below.
       if below then
         Inr (JObj [(''improved'', JBool False),
                    (''reason'', JStr reason),
                    (''retryCount'', retry_count)], t)
       else
         Inr (JObj [(''improved'', JBool False),
                    (''reason'', JStr (''Final Failure. Ticket Created: '' @ judge_ticket_id E)),
                    (''ticket_sk'', JStr (ticket_sk_of E genome_sk (judge_ticket_id E))),
                    (''retryCount'', retry_count)],
              try_put_ticket E t
                (judge_ticket_item E pk genome_sk chat_sk reason failed_challenger)))"

definition supervisor_ticket_id :: "env \<Rightarrow> string" where
  "supervisor_ticket_id E = ''sup-'' @ take 6 (uuid4_hex E)"

definition supervisor_ticket_item :: "env \<Rightarrow> json \<Rightarrow> json \<Rightarrow> json \<Rightarrow> string \<Rightarrow> json \<Rightarrow> json" where
  "supervisor_ticket_item E pk genome_sk chat_sk reason failed_challenger =
     JObj [(''PK'', pk),
           (''SK'', JStr (ticket_sk_of E genome_sk (supervisor_ticket_id E))),
           (''EntityType'', JStr ''Ticket''),
           (''timestamp'', JStr (ticket_utcnow_iso E @ ''Z'')),
           (''type'', JStr ''SYSTEM''),
           (''status'', JStr ''OPEN''),
           (''chat_sk'', or_else chat_sk ''UNKNOWN''),
           (''challenger_sk'', or_else failed_challenger ''NONE''),
           (''feedback'', JStr ''Automated Alert: Supervisor Safety Check Failed.''),
           (''ai_analysis'', JStr reason)]"

definition supervisor_handle_failure ::
  "env \<Rightarrow> table \<Rightarrow> json \<Rightarrow> json \<Rightarrow> json \<Rightarrow> json \<Rightarrow> string \<Rightarrow> json \<Rightarrow> (json \<times> table) result" where
  "supervisor_handle_failure E t pk genome_sk chat_sk retry_count reason failed_challenger =
     bindE (py_lt_int retry_count 1) (\<lambda>below.
       if below then
         Inr (JObj [(''compliant'', JBool False), (''reason'', JStr reason)], t)
       else
         Inr (JObj [(''compliant'', JBool False),
                    (''reason'', JStr (''Final Failure. Ticket Created: '' @ supervisor_ticket_id E))],
              try_put_ticket E t
                (supervisor_ticket_item E pk genome_sk chat_sk reason failed_challenger)))"

section \<open>Mutator\<close>

text \<open>More of Python on JSON values: \<open>len\<close>, iteration (a \<open>for\<close> loop, \<open>enumerate\<close>),
  \<open>d[k] = v\<close>, comparison with an integer constant, \<open>"\n".join\<close>, \<open>str.split\<close>.\<close>

fun py_len :: "json \<Rightarrow> nat result" where
  "py_len (JList xs) = Inr (length xs)"
| "py_len (JStr s) = Inr (length s)"
| "py_len (JObj kvs) = Inr (length kvs)"
| "py_len _ = Inl TypeError"

fun py_iter :: "json \<Rightarrow> json list result" where
  "py_iter (JList xs) = Inr xs"
| "py_iter (JStr s) = Inr (map (\<lambda>c. JStr [c]) s)"
| "py_iter (JObj kvs) = Inr (map (\<lambda>kv. JStr (fst kv)) kvs)"
| "py_iter _ = Inl TypeError"

fun py_setitem :: "json \<Rightarrow> string \<Rightarrow> json \<Rightarrow> json result" where
  "py_setitem (JObj kvs) k v = Inr (JObj (AList.update k v kvs))"
| "py_setitem _ k v = Inl TypeError"

fun py_gt_int :: "json \<Rightarrow> int \<Rightarrow> bool result" where
  "py_gt_int (JInt n) k = Inr (n > k)"
| "py_gt_int (JBool b) k = Inr ((if b then 1 else 0) > k)"
| "py_gt_int (JFloat r) k = Inr (r > of_int k)"
| "py_gt_int _ k = Inl TypeError"

fun py_eq_int :: "json \<Rightarrow> int \<Rightarrow> bool" where
  "py_eq_int (JInt n) k = (n = k)"
| "py_eq_int (JBool b) k = ((if b then 1 else 0) = k)"
| "py_eq_int (JFloat r) k = (r = of_int k)"
| "py_eq_int _ k = False"

fun join_lines :: "string list \<Rightarrow> string" where
  "join_lines [] = []"
| "join_lines [l] = l"
| "join_lines (l # ls) = l @ CHR 0x0A # join_lines ls"

fun split_on :: "char \<Rightarrow> string \<Rightarrow> string list" where
  "split_on c [] = [[]]"
| "split_on c (x # xs) =
     (if x = c then [] # split_on c xs
      else (case split_on c xs of w # ws \<Rightarrow> (x # w) # ws | [] \<Rightarrow> [[x]]))"

text \<open>\<open>fetch_genome\<close>: a missing item is a ValueError; an error of the read propagates.\<close>

definition fetch_genome :: "env \<Rightarrow> table \<Rightarrow> json \<Rightarrow> json \<Rightarrow> json result" where
  "fetch_genome E t pk sk =
     bindE (table_get_item E t pk sk) (\<lambda>response.
       case response of
         None \<Rightarrow> Inl (ValueError ''Genome not found'')
       | Some item \<Rightarrow> Inr item)"

text \<open>\<open>construct_system_prompt\<close> (the same function in the Mutator, the Judge and the
  Serving Path). A part that is appended as it is must be a string for \<open>join\<close>.\<close>

definition bullet_lines :: "(json \<Rightarrow> string) \<Rightarrow> string \<Rightarrow> string \<Rightarrow> json \<Rightarrow> string list result" where
  "bullet_lines R title bullet section =
     (if truthy section then
        bindE (py_iter section) (\<lambda>items.
          Inr ([title] @ map (\<lambda>item. bullet @ py_str R item) items @ [[]]))
      else Inr [])"

definition text_block :: "string \<Rightarrow> json \<Rightarrow> string list result" where
  "text_block title txt =
     (if truthy txt then
        (case txt of JStr s \<Rightarrow> Inr [title, s, []] | _ \<Rightarrow> Inl TypeError)
      else Inr [])"

fun tool_lines :: "(json \<Rightarrow> string) \<Rightarrow> json list \<Rightarrow> string list result" where
  "tool_lines R [] = Inr []"
| "tool_lines R (tool # tools) =
     bindE (py_get tool ''name'' (JStr ''unknown'')) (\<lambda>tool_name.
     bindE (py_get tool ''description'' (JStr ''No description'')) (\<lambda>tool_desc.
     bindE (tool_lines R tools) (\<lambda>rest.
       Inr ((''- '' @ py_str R tool_name @ '': '' @ py_str R tool_desc) # rest))))"

definition tools_block :: "(json \<Rightarrow> string) \<Rightarrow> json \<Rightarrow> string list result" where
  "tools_block R active_tools =
     (if truthy active_tools then
        bindE (py_iter active_tools) (\<lambda>tools.
        bindE (tool_lines R tools) (\<lambda>ls. Inr ([''AVAILABLE TOOLS:''] @ ls @ [[]])))
      else Inr [])"

definition construct_system_prompt :: "(json \<Rightarrow> string) \<Rightarrow> json \<Rightarrow> string result" where
  "construct_system_prompt R genome =
     bindE (py_get genome ''brain'' (JObj [])) (\<lambda>brain.
     bindE (py_get genome ''resources'' (JObj [])) (\<lambda>resources.
     bindE (py_get genome ''capabilities'' (JObj [])) (\<lambda>capabilities.
     bindE (py_get brain ''persona'' (JObj [])) (\<lambda>persona.
     bindE (py_get persona ''role'' (JStr ''AI Assistant'')) (\<lambda>role.
     bindE (py_get persona ''tone'' (JStr ''Professional'')) (\<lambda>tone.
     bindE (py_get brain ''style_guide'' (JList [])) (\<lambda>style_guide.
     bindE (py_get brain ''objectives'' (JList [])) (\<lambda>objectives.
     bindE (py_get brain ''operational_guidelines'' (JList [])) (\<lambda>operational_guidelines.
     bindE (py_get resources ''knowledge_base_text'' (JStr [])) (\<lambda>knowledge_base_text.
     bindE (py_get resources ''policy_text'' (JStr [])) (\<lambda>policy_text.
     bindE (py_get capabilities ''active_tools'' (JList [])) (\<lambda>active_tools.
     bindE (bullet_lines R ''STYLE GUIDE:'' ''- '' style_guide) (\<lambda>p1.
     bindE (bullet_lines R ''OBJECTIVES:'' ''- '' objectives) (\<lambda>p2.
     bindE (bullet_lines R ''OPERATIONAL GUIDELINES:'' [] operational_guidelines) (\<lambda>p3.
     bindE (tools_block R active_tools) (\<lambda>p6.
     bindE (text_block ''KNOWLEDGE BASE:'' knowledge_base_text) (\<lambda>p4.
     bindE (text_block ''POLICY CONSTRAINTS:'' policy_text) (\<lambda>p5.
       Inr (join_lines
              ([''You are a '' @ py_str R role @ '' with a '' @ py_str R tone @ '' tone.'', []]
               @ p1 @ p2 @ p3 @ p4 @ p5 @ p6))))))))))))))))))))"

definition estimate_token_count :: "string \<Rightarrow> int" where
  "estimate_token_count txt = (if txt = [] then 0 else int (length txt) div 4)"

text \<open>\<open>compute_hash\<close>: the first 16 hex digits of the SHA-256 of the value's JSON text
  with sorted keys; the digest is the environment's \<open>sha256_json\<close>.\<close>

definition compute_hash :: "env \<Rightarrow> json \<Rightarrow> string" where
  "compute_hash E data = take 16 (sha256_json E data)"

definition assemble_complete_genome :: "env \<Rightarrow> json \<Rightarrow> json \<Rightarrow> json \<Rightarrow> string \<Rightarrow> json result" where
  "assemble_complete_genome E original mutation_brain critic_issue challenger_sk =
     bindE (py_get original ''metadata'' (JObj [])) (\<lambda>original_meta.
     bindE (py_get original_meta ''name'' (JStr ''Agent'')) (\<lambda>name.
     bindE (py_get original_meta ''description'' (JStr [])) (\<lambda>description.
     bindE (py_get original_meta ''version_hash'' (JStr ''unknown'')) (\<lambda>parent_hash.
     bindE (py_item critic_issue ''reason'') (\<lambda>mutation_reason.
     bindE (py_get original ''config'' (JObj [])) (\<lambda>config.
     bindE (py_get original ''resources'' (JObj [])) (\<lambda>resources.
     bindE (py_get original ''capabilities'' (JObj [])) (\<lambda>capabilities.
     bindE (py_get original ''evolution_config'' (JObj [])) (\<lambda>evolution_config.
     bindE (py_get original ''economics'' (JObj [])) (\<lambda>original_econ.
     bindE (construct_system_prompt (py_repr E)
              (JObj [(''brain'', mutation_brain), (''resources'', resources),
                     (''capabilities'', capabilities)])) (\<lambda>full_system_prompt.
     bindE (py_get original_econ ''token_budget'' (JInt 600)) (\<lambda>token_budget.
     bindE (py_item original ''PK'') (\<lambda>pk.
       Inr (JObj
         [(''PK'', pk),
          (''SK'', JStr challenger_sk),
          (''EntityType'', JStr ''Challenger''),
          (''metadata'', JObj
             [(''name'', JStr (py_str (py_repr E) name @ '' (Candidate)'')),
              (''description'', description),
              (''creator'', JStr ''Darwinian_Mutator_Agent''),
              (''version_hash'', JStr (compute_hash E mutation_brain)),
              (''parent_hash'', parent_hash),
              (''deployment_state'', JStr ''PENDING_APPROVAL''),
              (''mutation_reason'', mutation_reason)]),
          (''config'', config),
          (''economics'', JObj
             [(''likes'', JInt 0),
              (''dislikes'', JInt 0),
              (''input_token_count'', JInt (estimate_token_count full_system_prompt)),
              (''token_budget'', token_budget),
              (''estimated_cost_of_calling'', JStr ''$0.001'')]),
          (''brain'', mutation_brain),
          (''resources'', resources),
          (''capabilities'', capabilities),
          (''evolution_config'', evolution_config)]))))))))))))))"

text \<open>\<open>write_complete_challengers\<close>. The timestamp is the second \<open>#\<close>-part of the
  parent's SK; when that cannot be read (a bare \<open>except\<close>), it is the clock.\<close>

definition original_timestamp :: "env \<Rightarrow> json \<Rightarrow> string" where
  "original_timestamp E original_genome =
     (case py_item original_genome ''SK'' of
        Inr (JStr sk) \<Rightarrow>
          (case split_on CHR ''#'' sk of
             p0 # p1 # ps \<Rightarrow> p1
           | _ \<Rightarrow> utcnow_iso E)
      | _ \<Rightarrow> utcnow_iso E)"

definition base_attempt :: "json \<Rightarrow> int" where
  "base_attempt retry_count = (if py_eq_int retry_count 0 then 1 else 4)"

definition challenger_sk_of :: "string \<Rightarrow> int \<Rightarrow> string" where
  "challenger_sk_of ts attempt_num =
     ''VERSION#'' @ ts @ ''#CHALLENGER#attempt-'' @ str_int attempt_num"

text \<open>The loop over \<open>enumerate(mutations)\<close>: \<open>i\<close> counts from 0. An exception leaves
  the loop; what was written before stays written, so the table is returned in
  either case.\<close>

fun write_loop ::
  "env \<Rightarrow> json \<Rightarrow> json \<Rightarrow> string \<Rightarrow> int \<Rightarrow> int \<Rightarrow> json list \<Rightarrow> table \<Rightarrow> string list result \<times> table" where
  "write_loop E original_genome critic_issue ts base i [] t = (Inr [], t)"
| "write_loop E original_genome critic_issue ts base i (mutation_brain # rest) t =
     (let challenger_sk = challenger_sk_of ts (base + i) in
      case assemble_complete_genome E original_genome mutation_brain critic_issue challenger_sk of
        Inl e \<Rightarrow> (Inl e, t)
      | Inr challenger_genome \<Rightarrow>
          (case put_item (put_accepts E) t challenger_genome of
             Inl e \<Rightarrow> (Inl e, t)
           | Inr t' \<Rightarrow>
               (case write_loop E original_genome critic_issue ts base (i + 1) rest t' of
                  (Inl e, t'') \<Rightarrow> (Inl e, t'')
                | (Inr sks, t'') \<Rightarrow> (Inr (challenger_sk # sks), t''))))"

definition write_complete_challengers ::
  "env \<Rightarrow> table \<Rightarrow> json \<Rightarrow> json \<Rightarrow> json \<Rightarrow> json \<Rightarrow> string list result \<times> table" where
  "write_complete_challengers E t original_genome mutations critic_issue retry_count =
     (case py_iter mutations of
        Inl e \<Rightarrow> (Inl e, t)
      | Inr ms \<Rightarrow>
          write_loop E original_genome critic_issue (original_timestamp E original_genome)
            (base_attempt retry_count) 0 ms t)"

text \<open>\<open>generate_fallback_mutations\<close>: three copies of the brain, each with a new tone
  and one more guideline.\<close>

definition retone :: "(json \<Rightarrow> string) \<Rightarrow> json \<Rightarrow> string \<Rightarrow> json result" where
  "retone R m sfx =
     bindE (py_item m ''persona'') (\<lambda>persona.
     bindE (py_get persona ''tone'' (JStr ''Professional'')) (\<lambda>tone.
     bindE (py_setitem persona ''tone'' (JStr (py_str R tone @ sfx))) (\<lambda>persona'.
       py_setitem m ''persona'' persona')))"

definition append_to :: "json \<Rightarrow> string \<Rightarrow> string \<Rightarrow> json result" where
  "append_to m key line =
     bindE (py_item m key) (\<lambda>l.
       case l of
         JList xs \<Rightarrow> py_setitem m key (JList (xs @ [JStr line]))
       | _ \<Rightarrow> Inl AttributeError)"

definition generate_fallback_mutations :: "(json \<Rightarrow> string) \<Rightarrow> json \<Rightarrow> json result" where
  "generate_fallback_mutations R original_brain =
     bindE (retone R original_brain '' (Stricter)'') (\<lambda>m1.
     bindE (append_to m1 ''operational_guidelines'' ''Strictly adhere to the provided policy.'') (\<lambda>m1.
     bindE (retone R original_brain '' (Empathetic)'') (\<lambda>m2.
     bindE (append_to m2 ''operational_guidelines'' ''Ensure the user feels heard and understood.'') (\<lambda>m2.
     bindE (retone R original_brain '' (Concise)'') (\<lambda>m3.
     bindE (append_to m3 ''style_guide'' ''Keep responses under 2 sentences when possible.'') (\<lambda>m3.
       Inr (JList [m1, m2, m3])))))))"

text \<open>\<open>extract_json_safely\<close>: a dict with the key \<open>mutations\<close> gives that entry, whatever
  it is; a list is returned as it is; everything else is a ValueError.\<close>

fun extract_json_safely :: "parsed_text \<Rightarrow> json result" where
  "extract_json_safely (JsonValue (JObj kvs)) =
     (case map_of kvs ''mutations'' of
        Some ms \<Rightarrow> Inr ms
      | None \<Rightarrow> Inl (ValueError ''No valid JSON found in response''))"
| "extract_json_safely (JsonValue (JList xs)) = Inr (JList xs)"
| "extract_json_safely (JsonValue v) = Inl (ValueError ''No valid JSON found in response'')"
| "extract_json_safely JsonInvalid = Inl (ValueError ''JSONDecodeError'')"
| "extract_json_safely NoJsonFound = Inl (ValueError ''No valid JSON found in response'')"

text \<open>\<open>generate_mutations\<close>: the prompt reads the brain and the critic issue before the
  \<open>try\<close>; inside it, any exception of the call or of the parsing leads to the
  fallback.\<close>

definition generate_mutations :: "env \<Rightarrow> json \<Rightarrow> json \<Rightarrow> json \<Rightarrow> json result" where
  "generate_mutations E original_genome critic_issue retry_count =
     bindE (py_item original_genome ''brain'') (\<lambda>brain.
     bindE (py_item critic_issue ''rule'') (\<lambda>rule.
     bindE (py_item critic_issue ''reason'') (\<lambda>reason.
     bindE (py_gt_int retry_count 0) (\<lambda>retrying.
       let temperature = (if retrying then 4 / 10 else 8 / 10) in
       case bindE (mutation_reply E temperature) extract_json_safely of
         Inr mutations \<Rightarrow> Inr mutations
       | Inl e \<Rightarrow> generate_fallback_mutations (py_repr E) brain))))"

text \<open>Steps 1 to 5 of the Mutator's \<open>lambda_handler\<close>: the event, the genome, the
  mutations and the check of their number.\<close>

definition critic_issue_of :: "json \<Rightarrow> json result" where
  "critic_issue_of data =
     (case data of
        JObj kvs \<Rightarrow>
          (case map_of kvs ''critic_issue'' of
             Some ci \<Rightarrow> Inr ci
           | None \<Rightarrow>
               bindE (py_get data ''reason'' (JStr ''Optimization required'')) (\<lambda>reason.
                 Inr (JObj [(''reason'', reason), (''rule'', JStr ''Protocol Violation'')])))
      | _ \<Rightarrow> Inl TypeError)"

definition checked_mutations :: "env \<Rightarrow> json \<Rightarrow> json \<Rightarrow> json \<Rightarrow> json result" where
  "checked_mutations E original_genome critic_issue retry_count =
     bindE (generate_mutations E original_genome critic_issue retry_count) (\<lambda>mutations.
     bindE (py_len mutations) (\<lambda>n.
       if n \<noteq> 3 then
         bindE (py_item original_genome ''brain'') (generate_fallback_mutations (py_repr E))
       else Inr mutations))"

definition mutator_lambda_handler :: "env \<Rightarrow> table \<Rightarrow> json \<Rightarrow> json result \<times> table" where
  "mutator_lambda_handler E t event =
     (case
        bindE (py_get event ''detail'' event) (\<lambda>data.
        bindE (py_item data ''pk'') (\<lambda>pk_val.
        bindE (py_item data ''genome_sk'') (\<lambda>genome_sk_val.
        bindE (critic_issue_of data) (\<lambda>critic_issue.
        bindE (py_get event ''retryCount'' (JInt 0)) (\<lambda>retry_count.
        bindE (fetch_genome E t pk_val genome_sk_val) (\<lambda>original_genome.
        bindE (checked_mutations E original_genome critic_issue retry_count) (\<lambda>mutations.
          Inr (original_genome, mutations, critic_issue, retry_count))))))))
      of
        Inl e \<Rightarrow> (Inl e, t)
      | Inr (original_genome, mutations, critic_issue, retry_count) \<Rightarrow>
          (case write_complete_challengers E t original_genome mutations critic_issue retry_count of
             (Inl e, t') \<Rightarrow> (Inl e, t')
           | (Inr challenger_sks, t') \<Rightarrow>
               (Inr (JObj [(''challenger_sks'', JList (map JStr challenger_sks))]), t')))"

text \<open>Reading a field of a returned dict or of a stored item.\<close>

definition item_field :: "json \<Rightarrow> string \<Rightarrow> json option" where
  "item_field item k = (case item of JObj kvs \<Rightarrow> map_of kvs k | _ \<Rightarrow> None)"

definition result_field :: "(json \<times> table) result \<Rightarrow> string \<Rightarrow> json option" where
  "result_field r k = (case r of Inr (res, t) \<Rightarrow> item_field res k | Inl e \<Rightarrow> None)"

definition table_after :: "(json \<times> table) result \<Rightarrow> table option" where
  "table_after r = (case r of Inr (res, t) \<Rightarrow> Some t | Inl e \<Rightarrow> None)"

text \<open>Two environments for concrete runs: a store that accepts every write, and one
  that refuses every write.\<close>

definition sample_env :: env where
  "sample_env =
     \<lparr>py_repr = (\<lambda>v. ''<repr>''),
      utcnow_iso = ''2026-01-02T03:04:05.000006'',
      ticket_utcnow_iso = ''2026-01-02T03:04:07.000008'',
      uuid4_hex = ''0123456789abcdef0123456789abcdef'',
      uuid4_str = ''01234567-89ab-cdef-0123-456789abcdef'',
      put_accepts = (\<lambda>item. True),
      get_accepts = (\<lambda>key. True),
      sha256_json = (\<lambda>v. ''9f86d081884c7d659a2feaa0c55ad015a3bf4f1b''),
      mutation_reply = (\<lambda>temperature. Inl (ClientError ''ThrottlingException'')),
      audit_reply = Inr ''SAFE'',
      exception_text = (\<lambda>e. ''<exception>''),
      int_of_text = (\<lambda>s. None),
      converse_text = (\<lambda>model_id system_prompt messages. Inl (ClientError ''ThrottlingException'')),
      comparator_reply = Inl (ClientError ''ThrottlingException''),
      compliance_reply = Inl (ClientError ''ThrottlingException'')\<rparr>"

definition offline_env :: env where
  "offline_env = sample_env\<lparr>put_accepts := (\<lambda>item. False)\<rparr>"

text \<open>A lineage for concrete runs: one genome version, stored under its key, and the
  event the orchestrator sends to the Mutator after a FAIL verdict.\<close>

definition sample_brain :: json where
  "sample_brain =
     JObj [(''persona'', JObj [(''role'', JStr ''Car Salesman''), (''tone'', JStr ''Professional'')]),
           (''style_guide'', JList []),
           (''objectives'', JList [JStr ''Sell cars'']),
           (''operational_guidelines'', JList [])]"

definition sample_genome :: json where
  "sample_genome =
     JObj [(''PK'', JStr ''AGENT#a''),
           (''SK'', JStr ''VERSION#t1''),
           (''EntityType'', JStr ''Genome''),
           (''metadata'', JObj [(''name'', JStr ''Bot''), (''version_hash'', JStr ''h0''),
                                (''deployment_state'', JStr ''ACTIVE'')]),
           (''config'', JObj [(''model_id'', JStr ''amazon.nova-premier-v1:0''),
                              (''temperature'', JFloat (7 / 10)), (''max_tokens'', JInt 800)]),
           (''brain'', sample_brain),
           (''resources'', JObj [(''policy_text'', JStr ''Be polite.'')]),
           (''evolution_config'', JObj [(''critic_rules'', JList [JStr ''Never be rude.''])])]"

definition sample_table :: table where
  "sample_table = [((''AGENT#a'', ''VERSION#t1''), sample_genome)]"

definition sample_critic_issue :: json where
  "sample_critic_issue = JObj [(''reason'', JStr ''rude''), (''rule'', JStr ''Protocol Violation'')]"

definition mutator_event :: "int \<Rightarrow> json" where
  "mutator_event retry_count =
     JObj [(''detail'', JObj [(''pk'', JStr ''AGENT#a''), (''genome_sk'', JStr ''VERSION#t1''),
                            (''reason'', JStr ''rude'')]),
           (''retryCount'', JInt retry_count)]"

definition sample_mutations :: json where
  "sample_mutations = JList [sample_brain, sample_brain, sample_brain]"

text \<open>Two later rounds for the same parent: the second round (retry count 1), and a
  third round (retry count 2) that starts from the table the second one left.\<close>

definition second_round :: "string list result \<times> table" where
  "second_round =
     write_complete_challengers sample_env sample_table sample_genome sample_mutations
       sample_critic_issue (JInt 1)"

definition third_round :: "string list result \<times> table" where
  "third_round =
     write_complete_challengers sample_env (snd second_round) sample_genome sample_mutations
       sample_critic_issue (JInt 2)"

text \<open>The first round (retry count 0) for that parent, and the retry (retry count 1)
  that starts from the table the first round left.\<close>

definition first_round :: "string list result \<times> table" where
  "first_round =
     write_complete_challengers sample_env sample_table sample_genome sample_mutations
       sample_critic_issue (JInt 0)"

definition retry_round :: "string list result \<times> table" where
  "retry_round =
     write_complete_challengers sample_env (snd first_round) sample_genome sample_mutations
       sample_critic_issue (JInt 1)"

text \<open>The model answers the Mutator with the text \<open>{"mutations": 5}\<close>.\<close>

definition unsized_reply_env :: env where
  "unsized_reply_env =
     sample_env\<lparr>mutation_reply :=
       (\<lambda>temperature. Inr (JsonValue (JObj [(''mutations'', JInt 5)])))\<rparr>"

section \<open>Supervisor\<close>

text \<open>\<open>sub in s\<close> on strings, and \<open>k in x\<close> for a string \<open>k\<close>: a key of a dict, an element
  of a list, a substring of a string; TypeError on everything else.\<close>

fun py_contains :: "string \<Rightarrow> string \<Rightarrow> bool" where
  "py_contains sub [] = (sub = [])"
| "py_contains sub (c # cs) = (prefix sub (c # cs) \<or> py_contains sub cs)"

fun py_in :: "string \<Rightarrow> json \<Rightarrow> bool result" where
  "py_in k (JObj kvs) = Inr (map_of kvs k \<noteq> None)"
| "py_in k (JList xs) = Inr (JStr k \<in> set xs)"
| "py_in k (JStr s) = Inr (py_contains k s)"
| "py_in k _ = Inl TypeError"

text \<open>The helper \<open>get_item\<close> of Judge and Supervisor: every error of the read is
  swallowed and gives None.\<close>

definition get_item :: "env \<Rightarrow> table \<Rightarrow> json \<Rightarrow> json \<Rightarrow> json option" where
  "get_item E t pk sk =
     (case table_get_item E t pk sk of Inr (Some item) \<Rightarrow> Some item | _ \<Rightarrow> None)"

text \<open>\<open>validate_genome_safety\<close>. The structural check and the reads for the audit
  dossier come before the \<open>try\<close>; the audit call and the reading of its answer are
  inside it. \<open>audit_reply\<close> is the stripped output text of the model, or the exception
  raised on the way to it.\<close>

definition structurally_unsound :: "json \<Rightarrow> bool result" where
  "structurally_unsound brain =
     (if \<not> truthy brain then Inr True
      else
        bindE (py_in ''persona'' brain) (\<lambda>has_persona.
          if \<not> has_persona then Inr True
          else
            bindE (py_in ''operational_guidelines'' brain) (\<lambda>has_guidelines.
              Inr (\<not> has_guidelines))))"

definition read_audit :: "env \<Rightarrow> bool \<times> string" where
  "read_audit E =
     (case audit_reply E of
        Inl e \<Rightarrow> (False, ''Audit System Offline: '' @ exception_text E e)
      | Inr result_text \<Rightarrow>
          if prefix ''SAFE'' result_text then (True, ''Passed Policy Audit'')
          else if py_contains ''VIOLATION'' result_text then (False, result_text)
          else (True, ''Passed (Ambiguous Audit)''))"

text \<open>What \<open>validate_genome_safety\<close> does before the audit: \<open>Inr True\<close> when the structural
  check fails, \<open>Inr False\<close> when it passes and the dossier for the audit is read.\<close>

definition structural_check :: "json \<Rightarrow> bool result" where
  "structural_check item =
     bindE (py_get item ''brain'' (JObj [])) (\<lambda>brain.
     bindE (py_get item ''resources'' (JObj [])) (\<lambda>resources.
     bindE (structurally_unsound brain) (\<lambda>unsound.
       if unsound then Inr True
       else
         bindE (py_get resources ''policy_text'' (JStr ''No specific policy defined.'')) (\<lambda>policy_text.
         bindE (py_get brain ''persona'' JNull) (\<lambda>persona.
         bindE (py_get brain ''objectives'' JNull) (\<lambda>objectives.
         bindE (py_get brain ''operational_guidelines'' JNull) (\<lambda>guidelines.
           Inr False)))))))"

definition validate_genome_safety :: "env \<Rightarrow> json \<Rightarrow> (bool \<times> string) result" where
  "validate_genome_safety E item =
     bindE (structural_check item) (\<lambda>corrupt.
       if corrupt then Inr (False, ''Structural Corruption: Missing Brain/Persona'')
       else Inr (read_audit E))"

text \<open>Step 1 of the Supervisor's \<open>lambda_handler\<close>: reading the event.\<close>

record supervisor_input =
  in_pk :: json
  in_chat_sk :: json
  in_genome_sk :: json
  in_retry_count :: json
  in_winner_sk :: json
  in_promotion_reason :: json

definition unwrap_payload :: "json \<Rightarrow> json result" where
  "unwrap_payload r =
     bindE (py_in ''Payload'' r) (\<lambda>wrapped. if wrapped then py_item r ''Payload'' else Inr r)"

definition supervisor_parse_input :: "json \<Rightarrow> supervisor_input result" where
  "supervisor_parse_input event =
     bindE (py_get event ''originalInput'' (JObj [])) (\<lambda>original_input.
     bindE (py_get original_input ''detail'' (JObj [])) (\<lambda>detail.
     bindE (py_get detail ''pk'' JNull) (\<lambda>pk.
     bindE (py_get detail ''chat_sk'' JNull) (\<lambda>chat_sk.
     bindE (py_get detail ''genome_sk'' JNull) (\<lambda>genome_sk.
     bindE (py_get original_input ''retryCount'' (JInt 0)) (\<lambda>retry_count.
     bindE (py_get event ''judgeResult'' (JObj [])) (\<lambda>judge_result.
     bindE (unwrap_payload judge_result) (\<lambda>judge_result.
     bindE (py_get judge_result ''selected_challenger_sk'' JNull) (\<lambda>winner_sk.
     bindE (py_get judge_result ''reason'' (JStr ''Evolutionary Improvement'')) (\<lambda>promotion_reason.
     bindE (py_get event ''mutatorResult'' (JObj [])) (\<lambda>mutator_result.
     bindE (unwrap_payload mutator_result) (\<lambda>mutator_result.
     bindE (py_get mutator_result ''challenger_sks'' (JList [])) (\<lambda>all_challenger_sks.
       if \<not> truthy pk \<or> \<not> truthy winner_sk then Inl (ValueError ''Missing required keys'')
       else
         Inr \<lparr>in_pk = pk, in_chat_sk = chat_sk, in_genome_sk = genome_sk,
              in_retry_count = retry_count, in_winner_sk = winner_sk,
              in_promotion_reason = promotion_reason\<rparr>)))))))))))))"

text \<open>Steps 4 and 5: the new version and the pointer.\<close>

definition new_version_sk :: "env \<Rightarrow> string" where
  "new_version_sk E = ''VERSION#'' @ utcnow_iso E @ ''Z''"

definition section_or_empty :: "json \<Rightarrow> string \<Rightarrow> json" where
  "section_or_empty item k = (case item_field item k of Some v \<Rightarrow> v | None \<Rightarrow> JObj [])"

definition mint_genome :: "env \<Rightarrow> supervisor_input \<Rightarrow> json \<Rightarrow> json result" where
  "mint_genome E i winner_item =
     bindE (py_get winner_item ''brain'' (JObj [])) (\<lambda>brain.
     bindE (py_get winner_item ''config'' (JObj [])) (\<lambda>config.
     bindE (py_get winner_item ''resources'' (JObj [])) (\<lambda>resources.
     bindE (py_get winner_item ''capabilities'' (JObj [])) (\<lambda>capabilities.
     bindE (py_get winner_item ''evolution_config'' (JObj [])) (\<lambda>evolution_config.
     bindE (py_get winner_item ''economics'' (JObj [])) (\<lambda>economics.
     bindE (py_get winner_item ''metadata'' (JObj [])) (\<lambda>metadata.
     bindE (py_get metadata ''name'' (JStr ''Agent'')) (\<lambda>name.
     bindE (py_get metadata ''parent_hash'' (JStr ''unknown'')) (\<lambda>parent_hash.
       Inr (JObj
         [(''PK'', in_pk i),
          (''SK'', JStr (new_version_sk E)),
          (''EntityType'', JStr ''Genome''),
          (''brain'', brain),
          (''config'', config),
          (''resources'', resources),
          (''capabilities'', capabilities),
          (''evolution_config'', evolution_config),
          (''economics'', economics),
          (''metadata'', JObj
             [(''name'', JStr (py_str (py_repr E) name @ '' (v''
                               @ take 10 (utcnow_iso E @ ''Z'') @ '')'')),
              (''description'', JStr (''Evolved from '' @ py_str (py_repr E) (in_genome_sk i))),
              (''creator'', JStr ''Supervisor_Agent''),
              (''version_hash'', JStr (uuid4_str E)),
              (''parent_hash'', parent_hash),
              (''deployment_state'', JStr ''ACTIVE''),
              (''mutation_reason'', in_promotion_reason i),
              (''deployed_at'', JStr (utcnow_iso E @ ''Z''))])]))))))))))"

definition pointer_item :: "env \<Rightarrow> json \<Rightarrow> json" where
  "pointer_item E pk =
     JObj [(''PK'', pk),
           (''SK'', JStr ''CURRENT''),
           (''active_version_sk'', JStr (new_version_sk E)),
           (''last_updated'', JStr (utcnow_iso E @ ''Z'')),
           (''updated_by'', JStr ''Supervisor_Agent'')]"

text \<open>Step 6: the items are put one after the other inside one \<open>try\<close>; the first
  refused write ends the sequence, and what was written before stays written.\<close>

fun put_sequence :: "(json \<Rightarrow> bool) \<Rightarrow> table \<Rightarrow> json list \<Rightarrow> unit result \<times> table" where
  "put_sequence accepts t [] = (Inr (), t)"
| "put_sequence accepts t (item # items) =
     (case put_item accepts t item of
        Inl e \<Rightarrow> (Inl e, t)
      | Inr t' \<Rightarrow> put_sequence accepts t' items)"

text \<open>A call of the failure handler that ends the invocation.\<close>

definition escalate :: "(json \<times> table) result \<Rightarrow> table \<Rightarrow> json result \<times> table" where
  "escalate r t = (case r of Inl e \<Rightarrow> (Inl e, t) | Inr (res, t') \<Rightarrow> (Inr res, t'))"

definition promote :: "env \<Rightarrow> table \<Rightarrow> supervisor_input \<Rightarrow> json \<Rightarrow> json result \<times> table" where
  "promote E t i winner_item =
     (case mint_genome E i winner_item of
        Inl e \<Rightarrow> (Inl e, t)
      | Inr new_genome \<Rightarrow>
          (case put_sequence (put_accepts E) t [new_genome, pointer_item E (in_pk i)] of
             (Inl e, t1) \<Rightarrow>
               escalate
                 (supervisor_handle_failure E t1 (in_pk i) (in_genome_sk i) (in_chat_sk i)
                    (in_retry_count i) (''DB Write Failed: '' @ exception_text E e) JNull) t1
           | (Inr u, t2) \<Rightarrow>
               (Inr (JObj [(''status'', JStr ''SUCCESS''),
                           (''compliant'', JBool True),
                           (''new_active_version'', JStr (new_version_sk E)),
                           (''promotion_reason'', in_promotion_reason i)]), t2)))"

definition supervisor_lambda_handler :: "env \<Rightarrow> table \<Rightarrow> json \<Rightarrow> json result \<times> table" where
  "supervisor_lambda_handler E t event =
     (case supervisor_parse_input event of
        Inl e \<Rightarrow>
          (Inr (JObj [(''status'', JStr ''FAILED''),
                      (''error'', JStr (exception_text E e)),
                      (''compliant'', JBool False)]), t)
      | Inr i \<Rightarrow>
          (case get_item E t (in_pk i) (in_winner_sk i) of
             None \<Rightarrow>
               escalate
                 (supervisor_handle_failure E t (in_pk i) (in_genome_sk i) (in_chat_sk i)
                    (in_retry_count i)
                    (''Winner SK '' @ py_str (py_repr E) (in_winner_sk i) @ '' not found in DB.'')
                    JNull) t
           | Some winner_item \<Rightarrow>
               if \<not> truthy winner_item then
                 escalate
                   (supervisor_handle_failure E t (in_pk i) (in_genome_sk i) (in_chat_sk i)
                      (in_retry_count i)
                      (''Winner SK '' @ py_str (py_repr E) (in_winner_sk i) @ '' not found in DB.'')
                      JNull) t
               else
                 (case validate_genome_safety E winner_item of
                    Inl e \<Rightarrow> (Inl e, t)
                  | Inr (safe, reason) \<Rightarrow>
                      if \<not> safe then
                        escalate
                          (supervisor_handle_failure E t (in_pk i) (in_genome_sk i) (in_chat_sk i)
                             (in_retry_count i)
                             (''Supervisor Safety Protocol Violation: '' @ reason)
                             (in_winner_sk i)) t
                      else promote E t i winner_item)))"

text \<open>An event for the Supervisor: the Judge selected challenger attempt-1.\<close>

definition sample_winner :: json where
  "sample_winner =
     JObj [(''PK'', JStr ''AGENT#a''),
           (''SK'', JStr ''VERSION#t1#CHALLENGER#attempt-1''),
           (''EntityType'', JStr ''Challenger''),
           (''metadata'', JObj [(''name'', JStr ''Bot (Candidate)''), (''parent_hash'', JStr ''h0''),
                                (''deployment_state'', JStr ''PENDING_APPROVAL'')]),
           (''config'', JObj [(''model_id'', JStr ''amazon.nova-premier-v1:0''),
                              (''temperature'', JFloat (7 / 10)), (''max_tokens'', JInt 800)]),
           (''economics'', JObj [(''likes'', JInt 0), (''dislikes'', JInt 0)]),
           (''brain'', sample_brain),
           (''resources'', JObj [(''policy_text'', JStr ''Be polite.'')]),
           (''capabilities'', JObj []),
           (''evolution_config'', JObj [(''critic_rules'', JList [JStr ''Never be rude.''])])]"

definition supervisor_table :: table where
  "supervisor_table =
     [((''AGENT#a'', ''VERSION#t1''), sample_genome),
      ((''AGENT#a'', ''CURRENT''),
       JObj [(''PK'', JStr ''AGENT#a''), (''SK'', JStr ''CURRENT''),
             (''active_version_sk'', JStr ''VERSION#t1'')]),
      ((''AGENT#a'', ''VERSION#t1#CHALLENGER#attempt-1''), sample_winner)]"

definition supervisor_event :: "int \<Rightarrow> json" where
  "supervisor_event retry_count =
     JObj [(''originalInput'',
            JObj [(''detail'', JObj [(''pk'', JStr ''AGENT#a''),
                                   (''genome_sk'', JStr ''VERSION#t1''),
                                   (''chat_sk'', JStr ''VERSION#t1#CHAT#c1'')]),
                  (''retryCount'', JInt retry_count)]),
           (''judgeResult'',
            JObj [(''Payload'',
                   JObj [(''improved'', JBool True),
                         (''selected_challenger_sk'', JStr ''VERSION#t1#CHALLENGER#attempt-1''),
                         (''reason'', JStr ''Follows the policy.'')])]),
           (''mutatorResult'',
            JObj [(''Payload'',
                   JObj [(''challenger_sks'',
                          JList [JStr ''VERSION#t1#CHALLENGER#attempt-1''])])])]"

text \<open>Environments in which the audit call raises, answers SAFE, and answers a text
  that neither starts with SAFE nor contains VIOLATION.\<close>

definition audit_down_env :: env where
  "audit_down_env = sample_env\<lparr>audit_reply := Inl (ClientError ''ThrottlingException'')\<rparr>"

definition audit_safe_env :: env where
  "audit_safe_env = sample_env\<lparr>audit_reply := Inr ''SAFE''\<rparr>"

definition audit_unclear_env :: env where
  "audit_unclear_env = sample_env\<lparr>audit_reply := Inr ''The configuration looks UNSAFE.''\<rparr>"

text \<open>The audit call raises and the store refuses every write.\<close>

definition audit_down_offline_env :: env where
  "audit_down_offline_env = audit_down_env\<lparr>put_accepts := (\<lambda>item. False)\<rparr>"

section \<open>Judge\<close>

text \<open>\<open>int(x)\<close>; what Python makes of a string is the environment's \<open>int_of_text\<close>.\<close>

definition py_int :: "env \<Rightarrow> json \<Rightarrow> int result" where
  "py_int E v =
     (case v of
        JInt n \<Rightarrow> Inr n
      | JBool b \<Rightarrow> Inr (if b then 1 else 0)
      | JFloat r \<Rightarrow> Inr (if r < 0 then - \<lfloor>- r\<rfloor> else \<lfloor>r\<rfloor>)
      | JStr s \<Rightarrow> (case int_of_text E s of Some n \<Rightarrow> Inr n | None \<Rightarrow> Inl (ValueError ''invalid literal''))
      | _ \<Rightarrow> Inl TypeError)"

text \<open>\<open>xs[:i]\<close> and \<open>xs[i]\<close> with an integer: a negative index counts from the end.\<close>

definition slice_end :: "nat \<Rightarrow> int \<Rightarrow> nat" where
  "slice_end len i = (if i < 0 then nat (int len + i) else min len (nat i))"

fun py_slice_to :: "json \<Rightarrow> int \<Rightarrow> json result" where
  "py_slice_to (JList xs) i = Inr (JList (take (slice_end (length xs) i) xs))"
| "py_slice_to (JStr s) i = Inr (JStr (take (slice_end (length s) i) s))"
| "py_slice_to _ i = Inl TypeError"

definition index_of :: "nat \<Rightarrow> int \<Rightarrow> nat option" where
  "index_of len i =
     (let j = (if i < 0 then int len + i else i)
      in if 0 \<le> j \<and> j < int len then Some (nat j) else None)"

fun py_index :: "json \<Rightarrow> int \<Rightarrow> json result" where
  "py_index (JList xs) i =
     (case index_of (length xs) i of Some j \<Rightarrow> Inr (xs ! j) | None \<Rightarrow> Inl IndexError)"
| "py_index (JStr s) i =
     (case index_of (length s) i of Some j \<Rightarrow> Inr (JStr [s ! j]) | None \<Rightarrow> Inl IndexError)"
| "py_index (JObj kvs) i = Inl (KeyError (str_int i))"
| "py_index _ i = Inl TypeError"

text \<open>\<open>invoke_agent_simulation\<close>: the model is the one the genome's config names;
  \<open>converse_text\<close> is the call and the reading of the text out of its response.\<close>

fun format_messages :: "json list \<Rightarrow> json list result" where
  "format_messages [] = Inr []"
| "format_messages (msg # msgs) =
     bindE (py_item msg ''role'') (\<lambda>role.
     bindE (py_item msg ''content'') (\<lambda>content.
     bindE (format_messages msgs) (\<lambda>rest.
       Inr (JObj [(''role'', role), (''content'', JList [JObj [(''text'', content)]])] # rest))))"

definition invoke_agent_simulation :: "env \<Rightarrow> json \<Rightarrow> json \<Rightarrow> json result" where
  "invoke_agent_simulation E genome transcript =
     bindE (py_get genome ''config'' (JObj [])) (\<lambda>config.
     bindE (py_get config ''model_id'' (JStr ''us.amazon.nova-micro-v1:0'')) (\<lambda>model_id.
       case model_id of
         JStr m \<Rightarrow>
           let target_model_id =
                 (if prefix ''amazon.nova'' m \<and> \<not> prefix ''us.'' m then ''us.'' @ m else m)
           in
             bindE (construct_system_prompt (py_repr E) genome) (\<lambda>system_prompt_text.
             bindE (py_iter transcript) (\<lambda>msgs.
             bindE (format_messages msgs) (\<lambda>formatted_messages.
               converse_text E target_model_id system_prompt_text (JList formatted_messages))))
       | _ \<Rightarrow> Inl AttributeError))"

text \<open>The loop over the challengers: a challenger that is not found is skipped, a
  simulation that raises is skipped, the composite genome is built outside the
  \<open>try\<close>.\<close>

fun simulate_challengers ::
  "env \<Rightarrow> table \<Rightarrow> json \<Rightarrow> json \<Rightarrow> json \<Rightarrow> json list \<Rightarrow> json list result" where
  "simulate_challengers E t pk original_genome truncated_transcript [] = Inr []"
| "simulate_challengers E t pk original_genome truncated_transcript (sk # sks) =
     (case get_item E t pk sk of
        None \<Rightarrow> simulate_challengers E t pk original_genome truncated_transcript sks
      | Some challenger_genome \<Rightarrow>
          if \<not> truthy challenger_genome then
            simulate_challengers E t pk original_genome truncated_transcript sks
          else
            bindE (py_get challenger_genome ''brain'' (JObj [])) (\<lambda>brain.
            bindE (py_get original_genome ''config'' (JObj [])) (\<lambda>original_config.
            bindE (py_get challenger_genome ''config'' original_config) (\<lambda>config.
            bindE (py_get original_genome ''resources'' (JObj [])) (\<lambda>resources.
            bindE (py_get original_genome ''capabilities'' (JObj [])) (\<lambda>capabilities.
            bindE (simulate_challengers E t pk original_genome truncated_transcript sks) (\<lambda>rest.
              case invoke_agent_simulation E
                     (JObj [(''brain'', brain), (''config'', config),
                            (''resources'', resources), (''capabilities'', capabilities)])
                     truncated_transcript of
                Inr new_response \<Rightarrow>
                  Inr (JObj [(''challenger_sk'', sk), (''response'', new_response)] # rest)
              | Inl e \<Rightarrow> Inr rest)))))))"

text \<open>\<open>invoke_judge_model\<close> catches every exception: whatever goes wrong with the
  call or with the parsing, it returns the empty dict.\<close>

definition invoke_judge_model :: "parsed_text result \<Rightarrow> json" where
  "invoke_judge_model reply = (case reply of Inr (JsonValue v) \<Rightarrow> v | _ \<Rightarrow> JObj [])"

text \<open>The choice of the winner from the comparator's answer; every exception in it is
  caught and means no winner.\<close>

definition chosen_candidate :: "json \<Rightarrow> json list \<Rightarrow> json option" where
  "chosen_candidate res candidates =
     (case py_get res ''winner_id'' JNull of
        Inr (JInt n) \<Rightarrow>
          if n \<noteq> - 1 \<and> 0 \<le> n \<and> n < int (length candidates) then Some (candidates ! nat n)
          else None
      | Inr (JBool b) \<Rightarrow>
          if (if b then 1 else 0) < length candidates
          then Some (candidates ! (if b then 1 else 0)) else None
      | _ \<Rightarrow> None)"

definition run_comparator_stage :: "env \<Rightarrow> json list \<Rightarrow> json \<Rightarrow> json option result" where
  "run_comparator_stage E candidates history =
     (if candidates = [] then Inr None
      else
        bindE (if truthy history
               then bindE (py_index history (- 1)) (\<lambda>last. py_item last ''content'')
               else Inr (JStr ''Start'')) (\<lambda>last_user_msg.
          Inr (chosen_candidate (invoke_judge_model (comparator_reply E)) candidates)))"

text \<open>\<open>run_compliance_stage\<close>: the reads for the prompt, then the judge model's answer
  as \<open>invoke_judge_model\<close> returns it. The \<open>except\<close> branch of the source is never
  taken, because \<open>invoke_judge_model\<close> does not raise.\<close>

definition run_compliance_stage :: "env \<Rightarrow> json \<Rightarrow> json result" where
  "run_compliance_stage E genome =
     bindE (py_get genome ''resources'' (JObj [])) (\<lambda>resources.
     bindE (py_get genome ''evolution_config'' (JObj [])) (\<lambda>evolution_config.
     bindE (py_get evolution_config ''judge_rubric'' (JList [])) (\<lambda>rubric.
     bindE (py_get resources ''knowledge_base_text'' (JStr [])) (\<lambda>knowledge_base_text.
     bindE (py_get resources ''policy_text'' (JStr [])) (\<lambda>policy_text.
       Inr (invoke_judge_model (compliance_reply E)))))))"

record judge_input =
  j_challenger_sks :: json
  j_pk :: json
  j_genome_sk :: json
  j_chat_sk :: json
  j_retry_count :: json

definition judge_parse_input :: "env \<Rightarrow> json \<Rightarrow> judge_input result" where
  "judge_parse_input E event =
     (case
        bindE (py_get event ''mutatorResult'' (JObj [])) (\<lambda>mutator_payload.
        bindE (py_get event ''originalInput'' (JObj [])) (\<lambda>original_input.
        bindE (unwrap_payload mutator_payload) (\<lambda>mutator_payload.
        bindE (py_get mutator_payload ''challenger_sks'' (JList [])) (\<lambda>challenger_sks.
        bindE (py_get original_input ''detail'' (JObj [])) (\<lambda>detail.
        bindE (py_get detail ''pk'' JNull) (\<lambda>pk.
        bindE (py_get detail ''genome_sk'' JNull) (\<lambda>genome_sk.
        bindE (py_get detail ''chat_sk''
                 (JStr (py_str (py_repr E) genome_sk @ ''#CHAT#abc-123''))) (\<lambda>chat_sk.
        bindE (py_get original_input ''retryCount'' (JInt 0)) (\<lambda>retry_count.
          Inr \<lparr>j_challenger_sks = challenger_sks, j_pk = pk, j_genome_sk = genome_sk,
               j_chat_sk = chat_sk, j_retry_count = retry_count\<rparr>)))))))))
      of
        Inl e \<Rightarrow> Inl (ValueError ''Structure Mismatch'')
      | Inr i \<Rightarrow> Inr i)"

text \<open>Steps 2 to 5 of the Judge's \<open>lambda_handler\<close>: the genome, the chat, the
  truncated transcript, the simulations and the comparator. The default of
  \<open>failure_turn_index\<close>, \<open>len(transcript) - 1\<close>, is computed whether it is needed or
  not.\<close>

definition judge_winner :: "env \<Rightarrow> table \<Rightarrow> judge_input \<Rightarrow> (json \<times> json option) result" where
  "judge_winner E t i =
     (case (get_item E t (j_pk i) (j_genome_sk i), get_item E t (j_pk i) (j_chat_sk i)) of
        (Some original_genome, Some original_chat) \<Rightarrow>
          if \<not> truthy original_genome \<or> \<not> truthy original_chat
          then Inl (ValueError ''Missing Data'')
          else
            bindE (py_get original_chat ''transcript'' (JList [])) (\<lambda>transcript.
            bindE (py_len transcript) (\<lambda>n.
            bindE (py_get original_chat ''failure_turn_index'' (JInt (int n - 1))) (\<lambda>fti.
            bindE (py_int E fti) (\<lambda>failure_index.
            bindE (py_slice_to transcript failure_index) (\<lambda>truncated_transcript.
            bindE (py_index transcript failure_index) (\<lambda>failed_turn.
            bindE (py_item failed_turn ''content'') (\<lambda>original_bad_response.
            bindE (py_get original_chat ''critic_reason'' (JStr ''Unknown failure'')) (\<lambda>critic_reason.
            bindE (py_iter (j_challenger_sks i)) (\<lambda>sks.
            bindE (simulate_challengers E t (j_pk i) original_genome truncated_transcript sks)
              (\<lambda>candidate_responses.
            bindE (run_comparator_stage E candidate_responses truncated_transcript) (\<lambda>winner.
              Inr (original_genome, winner))))))))))))
      | _ \<Rightarrow> Inl (ValueError ''Missing Data''))"

text \<open>Step 6: no winner, or the compliance stage and the reading of its result.\<close>

definition judge_lambda_handler :: "env \<Rightarrow> table \<Rightarrow> json \<Rightarrow> json result \<times> table" where
  "judge_lambda_handler E t event =
     (case bindE (judge_parse_input E event) (\<lambda>i.
             bindE (judge_winner E t i) (\<lambda>(original_genome, winner). Inr (i, original_genome, winner))) of
        Inl e \<Rightarrow> (Inl e, t)
      | Inr (i, original_genome, None) \<Rightarrow>
          escalate
            (judge_handle_failure E t (j_pk i) (j_genome_sk i) (j_chat_sk i) (j_retry_count i)
               ''No challenger improved on the failure.'' JNull) t
      | Inr (i, original_genome, Some winner) \<Rightarrow>
          (case
             bindE (py_item winner ''response'') (\<lambda>response.
             bindE (run_compliance_stage E original_genome) (\<lambda>compliance_result.
             bindE (py_item compliance_result ''passed'') (\<lambda>passed.
             bindE (py_item winner ''challenger_sk'') (\<lambda>winner_sk.
             bindE (py_item compliance_result ''reason'') (\<lambda>reason.
               Inr (truthy passed, winner_sk, response, reason))))))
           of
             Inl e \<Rightarrow> (Inl e, t)
           | Inr (passed, winner_sk, response, reason) \<Rightarrow>
               if passed then
                 (Inr (JObj [(''improved'', JBool True),
                             (''selected_challenger_sk'', winner_sk),
                             (''improved_response'', response),
                             (''reason'', reason),
                             (''retryCount'', j_retry_count i)]), t)
               else
                 escalate
                   (judge_handle_failure E t (j_pk i) (j_genome_sk i) (j_chat_sk i)
                      (j_retry_count i)
                      (''Improved logic but failed Compliance: '' @ py_str (py_repr E) reason)
                      winner_sk) t))"

text \<open>A failed conversation and the event for the Judge.\<close>

definition sample_chat :: json where
  "sample_chat =
     JObj [(''PK'', JStr ''AGENT#a''),
           (''SK'', JStr ''VERSION#t1#CHAT#c1''),
           (''transcript'',
            JList [JObj [(''role'', JStr ''user''), (''content'', JStr ''Price?'')],
                   JObj [(''role'', JStr ''assistant''), (''content'', JStr ''Go away.'')]]),
           (''critic_verdict'', JStr ''FAIL''),
           (''critic_reason'', JStr ''rude''),
           (''failure_turn_index'', JInt 1)]"

definition judge_table :: table where
  "judge_table =
     [((''AGENT#a'', ''VERSION#t1''), sample_genome),
      ((''AGENT#a'', ''VERSION#t1#CHAT#c1''), sample_chat),
      ((''AGENT#a'', ''VERSION#t1#CHALLENGER#attempt-1''), sample_winner)]"

definition judge_event :: "int \<Rightarrow> json" where
  "judge_event retry_count =
     JObj [(''mutatorResult'',
            JObj [(''Payload'',
                   JObj [(''challenger_sks'',
                          JList [JStr ''VERSION#t1#CHALLENGER#attempt-1''])])]),
           (''originalInput'',
            JObj [(''detail'', JObj [(''pk'', JStr ''AGENT#a''),
                                   (''genome_sk'', JStr ''VERSION#t1''),
                                   (''chat_sk'', JStr ''VERSION#t1#CHAT#c1'')]),
                  (''retryCount'', JInt retry_count)])]"

text \<open>Environments for the Judge: the simulation answers, the comparator picks
  candidate 0, and the compliance call (a) raises, (b) answers
  \<open>{"passed": "no", "reason": "Violates the policy."}\<close>, (c) answers
  \<open>{"passed": false, "reason": "Violates the policy."}\<close>.\<close>

definition judge_env :: env where
  "judge_env =
     sample_env
       \<lparr>converse_text := (\<lambda>model_id system_prompt messages. Inr (JStr ''The price is on the tag.'')),
        comparator_reply := Inr (JsonValue (JObj [(''winner_id'', JInt 0), (''reason'', JStr ''polite'')])),
        compliance_reply := Inr (JsonValue (JObj [(''passed'', JBool False),
                                                 (''reason'', JStr ''Violates the policy.'')]))\<rparr>"

definition compliance_down_env :: env where
  "compliance_down_env =
     judge_env\<lparr>compliance_reply := Inl (ClientError ''ThrottlingException'')\<rparr>"

definition compliance_text_env :: env where
  "compliance_text_env =
     judge_env\<lparr>compliance_reply :=
       Inr (JsonValue (JObj [(''passed'', JStr ''no''), (''reason'', JStr ''Violates the policy.'')]))\<rparr>"

section \<open>Serving Path\<close>



































text \<open>What a ticket of the escalation policy looks like: an OPEN ticket of type SYSTEM
  that refers to a chat and to a challenger (or to a placeholder).\<close>

definition open_system_ticket :: "json \<Rightarrow> json \<Rightarrow> json \<Rightarrow> bool" where
  "open_system_ticket item chat_ref challenger_ref \<longleftrightarrow>
     item_field item ''EntityType'' = Some (JStr ''Ticket'') \<and>
     item_field item ''status'' = Some (JStr ''OPEN'') \<and>
     item_field item ''type'' = Some (JStr ''SYSTEM'') \<and>
     item_field item ''chat_sk'' = Some chat_ref \<and>
     item_field item ''challenger_sk'' = Some challenger_ref"

section \<open>Properties of the escalation policy\<close>

lemma map_of_update_same: "map_of (AList.update k v al) k = Some v"
  by (simp add: update_conv')

lemma map_of_update_other: "k' \<noteq> k \<Longrightarrow> map_of (AList.update k v al) k' = map_of al k'"
  by (simp add: update_conv')

lemma try_put_ticket_accepted:
  assumes "item_key item = Some k" and "put_accepts E item"
  shows "try_put_ticket E t item = AList.update k item t"
  using assms by (simp add: try_put_ticket_def put_item_def)

lemma try_put_ticket_refused:
  assumes "item_key item = None \<or> \<not> put_accepts E item"
  shows "try_put_ticket E t item = t"
  using assms by (auto simp: try_put_ticket_def put_item_def split: option.splits)

lemma judge_ticket_key:
  "item_key (judge_ticket_item E (JStr p) genome_sk chat_sk reason fc)
     = Some (p, ticket_sk_of E genome_sk (judge_ticket_id E))"
  by (simp add: item_key_def judge_ticket_item_def)

lemma supervisor_ticket_key:
  "item_key (supervisor_ticket_item E (JStr p) genome_sk chat_sk reason fc)
     = Some (p, ticket_sk_of E genome_sk (supervisor_ticket_id E))"
  by (simp add: item_key_def supervisor_ticket_item_def)

lemma judge_below_threshold:
  assumes "n < 1"
  shows "judge_handle_failure E t pk genome_sk chat_sk (JInt n) reason fc
           = Inr (JObj [(''improved'', JBool False), (''reason'', JStr reason),
                        (''retryCount'', JInt n)], t)"
  using assms by (simp add: judge_handle_failure_def bindE_def)

lemma judge_at_threshold:
  assumes "1 \<le> n"
  shows "judge_handle_failure E t pk genome_sk chat_sk (JInt n) reason fc
           = Inr (JObj [(''improved'', JBool False),
                        (''reason'', JStr (''Final Failure. Ticket Created: '' @ judge_ticket_id E)),
                        (''ticket_sk'', JStr (ticket_sk_of E genome_sk (judge_ticket_id E))),
                        (''retryCount'', JInt n)],
                  try_put_ticket E t (judge_ticket_item E pk genome_sk chat_sk reason fc))"
  using assms by (simp add: judge_handle_failure_def bindE_def)

lemma supervisor_below_threshold:
  assumes "n < 1"
  shows "supervisor_handle_failure E t pk genome_sk chat_sk (JInt n) reason fc
           = Inr (JObj [(''compliant'', JBool False), (''reason'', JStr reason)], t)"
  using assms by (simp add: supervisor_handle_failure_def bindE_def)

lemma supervisor_at_threshold:
  assumes "1 \<le> n"
  shows "supervisor_handle_failure E t pk genome_sk chat_sk (JInt n) reason fc
           = Inr (JObj [(''compliant'', JBool False),
                        (''reason'', JStr (''Final Failure. Ticket Created: '' @ supervisor_ticket_id E))],
                  try_put_ticket E t (supervisor_ticket_item E pk genome_sk chat_sk reason fc))"
  using assms by (simp add: supervisor_handle_failure_def bindE_def)

lemma judge_ticket_open_system:
  "open_system_ticket (judge_ticket_item E pk genome_sk chat_sk reason fc)
     chat_sk (or_else fc ''NONE_SELECTED'')"
  by (simp add: open_system_ticket_def judge_ticket_item_def item_field_def)

lemma supervisor_ticket_open_system:
  "open_system_ticket (supervisor_ticket_item E pk genome_sk chat_sk reason fc)
     (or_else chat_sk ''UNKNOWN'') (or_else fc ''NONE'')"
  by (simp add: open_system_ticket_def supervisor_ticket_item_def item_field_def)

text \<open>
  C1 (as amended). Below the threshold (retry count < 1) both handlers return a
  failure result without a ticket and leave the table as it is; the Judge's result
  carries the retry count it was given, the Supervisor's result is only
  \<open>{compliant: False, reason}\<close> and carries no retry count. At or above the threshold
  both build an OPEN ticket of type SYSTEM that refers to the chat and to the failed
  challenger (or to a placeholder when there is none), put it under
  \<open><genome_sk>#TICKET#<ticket_id>\<close>, and return a result that names the ticket; the
  table holds the ticket when the store accepts the write, and is unchanged when the
  store refuses it (the handler logs the refusal and returns the same result).
\<close>

theorem escalation_policy:
  fixes n :: int
  shows
    "(n < 1 \<longrightarrow>
        judge_handle_failure E t pk genome_sk chat_sk (JInt n) reason fc
          = Inr (JObj [(''improved'', JBool False), (''reason'', JStr reason),
                       (''retryCount'', JInt n)], t) \<and>
        supervisor_handle_failure E t pk genome_sk chat_sk (JInt n) reason fc
          = Inr (JObj [(''compliant'', JBool False), (''reason'', JStr reason)], t)) \<and>
     (1 \<le> n \<longrightarrow>
        (let sk = ticket_sk_of E genome_sk (judge_ticket_id E);
             ticket = judge_ticket_item E (JStr p) genome_sk chat_sk reason fc
         in judge_handle_failure E t (JStr p) genome_sk chat_sk (JInt n) reason fc
              = Inr (JObj [(''improved'', JBool False),
                           (''reason'', JStr (''Final Failure. Ticket Created: '' @ judge_ticket_id E)),
                           (''ticket_sk'', JStr sk),
                           (''retryCount'', JInt n)],
                     if put_accepts E ticket then AList.update (p, sk) ticket t else t) \<and>
            open_system_ticket ticket chat_sk (or_else fc ''NONE_SELECTED'')) \<and>
        (let sk = ticket_sk_of E genome_sk (supervisor_ticket_id E);
             ticket = supervisor_ticket_item E (JStr p) genome_sk chat_sk reason fc
         in supervisor_handle_failure E t (JStr p) genome_sk chat_sk (JInt n) reason fc
              = Inr (JObj [(''compliant'', JBool False),
                           (''reason'', JStr (''Final Failure. Ticket Created: '' @ supervisor_ticket_id E))],
                     if put_accepts E ticket then AList.update (p, sk) ticket t else t) \<and>
            open_system_ticket ticket (or_else chat_sk ''UNKNOWN'') (or_else fc ''NONE'')))"
proof (intro conjI impI)
  assume "n < 1"
  then show "judge_handle_failure E t pk genome_sk chat_sk (JInt n) reason fc
          = Inr (JObj [(''improved'', JBool False), (''reason'', JStr reason),
                       (''retryCount'', JInt n)], t)"
    by (rule judge_below_threshold)
next
  assume "n < 1"
  then show "supervisor_handle_failure E t pk genome_sk chat_sk (JInt n) reason fc
          = Inr (JObj [(''compliant'', JBool False), (''reason'', JStr reason)], t)"
    by (rule supervisor_below_threshold)
next
  assume n: "1 \<le> n"
  have put: "try_put_ticket E t item
               = (if put_accepts E item then AList.update k item t else t)"
    if "item_key item = Some k" for item k
    using that try_put_ticket_accepted [of item k E t] try_put_ticket_refused [of item E t]
    by simp
  show "let sk = ticket_sk_of E genome_sk (judge_ticket_id E);
            ticket = judge_ticket_item E (JStr p) genome_sk chat_sk reason fc
        in judge_handle_failure E t (JStr p) genome_sk chat_sk (JInt n) reason fc
              = Inr (JObj [(''improved'', JBool False),
                           (''reason'', JStr (''Final Failure. Ticket Created: '' @ judge_ticket_id E)),
                           (''ticket_sk'', JStr sk),
                           (''retryCount'', JInt n)],
                     if put_accepts E ticket then AList.update (p, sk) ticket t else t) \<and>
            open_system_ticket ticket chat_sk (or_else fc ''NONE_SELECTED'')"
    unfolding Let_def
    using judge_at_threshold [OF n] put [OF judge_ticket_key] judge_ticket_open_system
    by simp
  show "let sk = ticket_sk_of E genome_sk (supervisor_ticket_id E);
            ticket = supervisor_ticket_item E (JStr p) genome_sk chat_sk reason fc
        in supervisor_handle_failure E t (JStr p) genome_sk chat_sk (JInt n) reason fc
              = Inr (JObj [(''compliant'', JBool False),
                           (''reason'', JStr (''Final Failure. Ticket Created: '' @ supervisor_ticket_id E))],
                     if put_accepts E ticket then AList.update (p, sk) ticket t else t) \<and>
            open_system_ticket ticket (or_else chat_sk ''UNKNOWN'') (or_else fc ''NONE'')"
    unfolding Let_def
    using supervisor_at_threshold [OF n] put [OF supervisor_ticket_key]
      supervisor_ticket_open_system
    by simp
qed

theorem escalation_policy_witness:
  "judge_handle_failure sample_env [] (JStr ''AGENT#a'') (JStr ''VERSION#t1'')
       (JStr ''VERSION#t1#CHAT#c1'') (JInt 0) ''No challenger improved on the failure.'' JNull
     = Inr (JObj [(''improved'', JBool False),
                  (''reason'', JStr ''No challenger improved on the failure.''),
                  (''retryCount'', JInt 0)], []) \<and>
   result_field
     (judge_handle_failure sample_env [] (JStr ''AGENT#a'') (JStr ''VERSION#t1'')
        (JStr ''VERSION#t1#CHAT#c1'') (JInt 1) ''r'' (JStr ''VERSION#t1#CHALLENGER#attempt-4''))
     ''ticket_sk'' = Some (JStr ''VERSION#t1#TICKET#xyz-012345'') \<and>
   table_after
     (supervisor_handle_failure sample_env [] (JStr ''AGENT#a'') (JStr ''VERSION#t1'')
        (JStr ''VERSION#t1#CHAT#c1'') (JInt 1) ''r'' (JStr ''VERSION#t1#CHALLENGER#attempt-4''))
     = Some [((''AGENT#a'', ''VERSION#t1#TICKET#sup-012345''),
              supervisor_ticket_item sample_env (JStr ''AGENT#a'') (JStr ''VERSION#t1'')
                (JStr ''VERSION#t1#CHAT#c1'') ''r'' (JStr ''VERSION#t1#CHALLENGER#attempt-4''))]"
  using
    escalation_policy [of 0 sample_env "[]" "JStr ''AGENT#a''" "JStr ''VERSION#t1''"
      "JStr ''VERSION#t1#CHAT#c1''" "''No challenger improved on the failure.''" JNull]
    escalation_policy [of 1 sample_env "[]" "JStr ''AGENT#a''" "JStr ''VERSION#t1''"
      "JStr ''VERSION#t1#CHAT#c1''" "''r''" "JStr ''VERSION#t1#CHALLENGER#attempt-4''" "''AGENT#a''"]
  by (simp add: Let_def result_field_def table_after_def item_field_def sample_env_def
      ticket_sk_of_def judge_ticket_id_def supervisor_ticket_id_def)

text \<open>
  C1 as stated fails at two inputs. The Supervisor's handler, called with retry count
  0, returns a result with no \<open>retryCount\<close> field. The Judge's handler, called with
  retry count 1 while the store refuses writes, returns the result that names a
  ticket although the table holds none.
\<close>

theorem escalation_policy_counterexample:
  "result_field
     (supervisor_handle_failure sample_env [] (JStr ''AGENT#a'') (JStr ''VERSION#t1'')
        (JStr ''VERSION#t1#CHAT#c1'') (JInt 0) ''unsafe'' JNull)
     ''reason'' = Some (JStr ''unsafe'') \<and>
   result_field
     (supervisor_handle_failure sample_env [] (JStr ''AGENT#a'') (JStr ''VERSION#t1'')
        (JStr ''VERSION#t1#CHAT#c1'') (JInt 0) ''unsafe'' JNull)
     ''retryCount'' = None \<and>
   result_field
     (judge_handle_failure offline_env [] (JStr ''AGENT#a'') (JStr ''VERSION#t1'')
        (JStr ''VERSION#t1#CHAT#c1'') (JInt 1) ''r'' JNull)
     ''ticket_sk'' = Some (JStr ''VERSION#t1#TICKET#xyz-012345'') \<and>
   table_after
     (judge_handle_failure offline_env [] (JStr ''AGENT#a'') (JStr ''VERSION#t1'')
        (JStr ''VERSION#t1#CHAT#c1'') (JInt 1) ''r'' JNull)
     = Some []"
  by (simp add: supervisor_handle_failure_def judge_handle_failure_def bindE_def
      result_field_def table_after_def item_field_def try_put_ticket_def put_item_def
      item_key_def judge_ticket_item_def offline_env_def sample_env_def
      ticket_sk_of_def judge_ticket_id_def)

section \<open>Properties of the Mutator\<close>

lemma bindE_Inr_iff: "bindE m f = Inr y \<longleftrightarrow> (\<exists>x. m = Inr x \<and> f x = Inr y)"
  by (cases m) (simp_all add: bindE_def)

lemma py_item_obj_Inr: "py_item (JObj kvs) k = Inr v \<longleftrightarrow> map_of kvs k = Some v"
  by (simp split: option.splits)

lemma str_int_digits:
  "str_int 1 = ''1''" "str_int 2 = ''2''" "str_int 3 = ''3''"
  "str_int 4 = ''4''" "str_int 5 = ''5''" "str_int 6 = ''6''"
  by (simp_all add: str_int_def dec_digits.simps)

text \<open>A value whose \<open>len\<close> is 3 is iterated as three elements.\<close>

lemma py_len_three:
  assumes "py_len ms = Inr 3"
  shows "\<exists>a b c. py_iter ms = Inr [a, b, c]"
proof (cases ms)
  case (JList xs)
  with assms have "length xs = 3" by simp
  then obtain a b c where "xs = [a, b, c]"
    by (auto simp: length_Suc_conv numeral_3_eq_3)
  with JList show ?thesis by simp
next
  case (JStr s)
  with assms have "length s = 3" by simp
  then obtain a b c where "s = [a, b, c]"
    by (auto simp: length_Suc_conv numeral_3_eq_3)
  with JStr show ?thesis by simp
next
  case (JObj kvs)
  with assms have "length kvs = 3" by simp
  then obtain a b c where "kvs = [a, b, c]"
    by (auto simp: length_Suc_conv numeral_3_eq_3)
  with JObj show ?thesis by simp
qed (use assms in simp_all)

subsection \<open>The assembled challenger\<close>

lemma assemble_shape:
  assumes "assemble_complete_genome E og m ci sk = Inr ch"
  shows "\<exists>pk md cfg ec res cap evo.
           item_field og ''PK'' = Some pk \<and>
           ch = JObj [(''PK'', pk), (''SK'', JStr sk), (''EntityType'', JStr ''Challenger''),
                      (''metadata'', md), (''config'', cfg), (''economics'', ec),
                      (''brain'', m), (''resources'', res), (''capabilities'', cap),
                      (''evolution_config'', evo)]"
proof -
  from assms obtain kvs where og: "og = JObj kvs"
    by (cases og) (simp_all add: assemble_complete_genome_def bindE_def)
  from assms show ?thesis
    unfolding assemble_complete_genome_def og
    by (auto simp: bindE_Inr_iff item_field_def py_item_obj_Inr simp del: py_item.simps)
qed

lemma assemble_fields:
  assumes "assemble_complete_genome E og m ci sk = Inr ch"
  shows "item_field ch ''SK'' = Some (JStr sk)"
    and "item_field ch ''PK'' = item_field og ''PK''"
    and "item_field ch ''brain'' = Some m"
  using assemble_shape [OF assms] by (auto simp: item_field_def)

text \<open>
  C7. A challenger that \<open>assemble_complete_genome\<close> builds from a parent whose
  metadata holds a \<open>version_hash\<close> has that hash as its \<open>parent_hash\<close>, is in
  deployment state PENDING_APPROVAL, and has as \<open>version_hash\<close> the content hash of
  the mutated brain, which is also the brain it carries: the hash is what
  \<open>compute_hash\<close> returns for that brain, the first 16 characters of the SHA-256
  digest of the brain's JSON text.
\<close>

theorem challenger_lineage:
  assumes "assemble_complete_genome E original mutation_brain critic_issue challenger_sk
             = Inr challenger"
      and "item_field original ''metadata'' = Some meta"
      and "item_field meta ''version_hash'' = Some vh"
  shows "\<exists>cm. item_field challenger ''metadata'' = Some cm \<and>
           item_field cm ''parent_hash'' = Some vh \<and>
           item_field cm ''deployment_state'' = Some (JStr ''PENDING_APPROVAL'') \<and>
           item_field cm ''version_hash'' = Some (JStr (compute_hash E mutation_brain)) \<and>
           item_field cm ''version_hash''
             = Some (JStr (take 16 (sha256_json E mutation_brain))) \<and>
           item_field challenger ''brain'' = Some mutation_brain"
proof -
  obtain okvs where o: "original = JObj okvs" and m: "map_of okvs ''metadata'' = Some meta"
    using assms(2) by (cases original) (simp_all add: item_field_def)
  obtain mkvs where mm: "meta = JObj mkvs" and v: "map_of mkvs ''version_hash'' = Some vh"
    using assms(3) by (cases meta) (simp_all add: item_field_def)
  from assms(1) m v show ?thesis
    unfolding assemble_complete_genome_def o mm
    by (auto simp: bindE_Inr_iff item_field_def compute_hash_def)
qed

lemma returns_value: "\<not> isl r \<Longrightarrow> \<exists>x. r = Inr x"
  by (cases r) simp_all

lemma sample_challenger_assembled:
  "\<exists>ch. assemble_complete_genome sample_env sample_genome sample_brain sample_critic_issue
          ''VERSION#t1#CHALLENGER#attempt-1'' = Inr ch"
proof (rule returns_value)
  show "\<not> isl (assemble_complete_genome sample_env sample_genome sample_brain
      sample_critic_issue ''VERSION#t1#CHALLENGER#attempt-1'')"
    by code_simp
qed

theorem challenger_lineage_witness:
  "\<exists>ch cm. assemble_complete_genome sample_env sample_genome sample_brain sample_critic_issue
               ''VERSION#t1#CHALLENGER#attempt-1'' = Inr ch \<and>
           item_field ch ''metadata'' = Some cm \<and>
           item_field cm ''parent_hash'' = Some (JStr ''h0'') \<and>
           item_field cm ''deployment_state'' = Some (JStr ''PENDING_APPROVAL'') \<and>
           item_field cm ''version_hash'' = Some (JStr ''9f86d081884c7d65'') \<and>
           item_field ch ''brain'' = Some sample_brain"
proof -
  obtain ch where ch: "assemble_complete_genome sample_env sample_genome sample_brain
      sample_critic_issue ''VERSION#t1#CHALLENGER#attempt-1'' = Inr ch"
    using sample_challenger_assembled by blast
  have meta: "item_field sample_genome ''metadata''
      = Some (JObj [(''name'', JStr ''Bot''), (''version_hash'', JStr ''h0''),
                    (''deployment_state'', JStr ''ACTIVE'')])"
    by (simp add: sample_genome_def item_field_def)
  have vh: "item_field (JObj [(''name'', JStr ''Bot''), (''version_hash'', JStr ''h0''),
                    (''deployment_state'', JStr ''ACTIVE'')]) ''version_hash'' = Some (JStr ''h0'')"
    by (simp add: item_field_def)
  have digest: "take 16 (sha256_json sample_env sample_brain) = ''9f86d081884c7d65''"
    by (simp add: sample_env_def)
  from challenger_lineage [OF ch meta vh] ch digest show ?thesis by auto
qed

subsection \<open>The keys of a round\<close>

lemma write_loop_Cons_Inr:
  "write_loop E og ci ts base i (m # ms) t = (Inr sks, t') \<longleftrightarrow>
     (\<exists>ch t1 rest.
        assemble_complete_genome E og m ci (challenger_sk_of ts (base + i)) = Inr ch \<and>
        put_item (put_accepts E) t ch = Inr t1 \<and>
        write_loop E og ci ts base (i + 1) ms t1 = (Inr rest, t') \<and>
        sks = challenger_sk_of ts (base + i) # rest)"
  by (auto simp: Let_def split: sum.splits prod.splits)

lemma write_loop_Nil_Inr:
  "write_loop E og ci ts base i [] t = (Inr sks, t') \<longleftrightarrow> sks = [] \<and> t' = t"
  by auto

lemma write_loop_three:
  "write_loop E og ci ts base 0 [a, b, c] t = (Inr sks, t') \<longleftrightarrow>
     (\<exists>ca cb cc t1 t2.
        assemble_complete_genome E og a ci (challenger_sk_of ts base) = Inr ca \<and>
        put_item (put_accepts E) t ca = Inr t1 \<and>
        assemble_complete_genome E og b ci (challenger_sk_of ts (base + 1)) = Inr cb \<and>
        put_item (put_accepts E) t1 cb = Inr t2 \<and>
        assemble_complete_genome E og c ci (challenger_sk_of ts (base + 2)) = Inr cc \<and>
        put_item (put_accepts E) t2 cc = Inr t' \<and>
        sks = [challenger_sk_of ts base, challenger_sk_of ts (base + 1),
               challenger_sk_of ts (base + 2)])"
  by (auto simp: write_loop_Cons_Inr write_loop_Nil_Inr simp del: write_loop.simps)

lemma item_key_fields:
  "item_key item = Some (p, sk) \<longleftrightarrow>
     item_field item ''PK'' = Some (JStr p) \<and> item_field item ''SK'' = Some (JStr sk)"
  by (auto simp: item_key_def item_field_def split: json.splits option.splits)

lemma put_item_Inr:
  "put_item acc t item = Inr t' \<longleftrightarrow>
     (\<exists>k. item_key item = Some k \<and> acc item \<and> t' = AList.update k item t)"
  by (auto simp: put_item_def split: option.splits)

lemma put_challenger:
  assumes "assemble_complete_genome E og m ci sk = Inr ch"
      and "put_item acc t ch = Inr t'"
  shows "\<exists>p. item_field og ''PK'' = Some (JStr p) \<and> t' = AList.update (p, sk) ch t"
proof -
  from assms(2) obtain k where k: "item_key ch = Some k" and t': "t' = AList.update k ch t"
    unfolding put_item_Inr by blast
  obtain p sk' where "k = (p, sk')" by (cases k)
  with k have "item_field ch ''PK'' = Some (JStr p)" "item_field ch ''SK'' = Some (JStr sk')"
    by (simp_all add: item_key_fields)
  with assemble_fields(1,2) [OF assms(1)] have "item_field og ''PK'' = Some (JStr p)" "sk' = sk"
    by simp_all
  with t' \<open>k = (p, sk')\<close> show ?thesis by simp
qed

lemma original_timestamp_of_sk:
  assumes "item_field og ''SK'' = Some (JStr s)" and "split_on CHR ''#'' s = p0 # ts # ps"
  shows "original_timestamp E og = ts"
  using assms by (cases og) (simp_all add: original_timestamp_def item_field_def)

lemma base_attempt_later: "1 \<le> n \<Longrightarrow> base_attempt (JInt n) = 4"
  by (simp add: base_attempt_def)

text \<open>A round that returns has assembled and written three challengers, one after the
  other, under the three keys it returns.\<close>

lemma round_unrolled:
  assumes "py_iter ms = Inr [a, b, c]"
      and "write_complete_challengers E t og ms ci rc = (Inr sks, t')"
  shows "\<exists>p ca cb cc.
           item_field og ''PK'' = Some (JStr p) \<and>
           item_field ca ''brain'' = Some a \<and>
           item_field cb ''brain'' = Some b \<and>
           item_field cc ''brain'' = Some c \<and>
           sks = [challenger_sk_of (original_timestamp E og) (base_attempt rc),
                  challenger_sk_of (original_timestamp E og) (base_attempt rc + 1),
                  challenger_sk_of (original_timestamp E og) (base_attempt rc + 2)] \<and>
           t' = AList.update (p, sks ! 2) cc
                  (AList.update (p, sks ! 1) cb (AList.update (p, sks ! 0) ca t))"
proof -
  let ?ts = "original_timestamp E og" and ?b = "base_attempt rc"
  from assms have "write_loop E og ci ?ts ?b 0 [a, b, c] t = (Inr sks, t')"
    by (simp add: write_complete_challengers_def del: write_loop.simps)
  then obtain ca cb cc t1 t2 where
    a: "assemble_complete_genome E og a ci (challenger_sk_of ?ts ?b) = Inr ca"
      "put_item (put_accepts E) t ca = Inr t1"
    and b: "assemble_complete_genome E og b ci (challenger_sk_of ?ts (?b + 1)) = Inr cb"
      "put_item (put_accepts E) t1 cb = Inr t2"
    and c: "assemble_complete_genome E og c ci (challenger_sk_of ?ts (?b + 2)) = Inr cc"
      "put_item (put_accepts E) t2 cc = Inr t'"
    and sks: "sks = [challenger_sk_of ?ts ?b, challenger_sk_of ?ts (?b + 1),
                     challenger_sk_of ?ts (?b + 2)]"
    unfolding write_loop_three by blast
  from put_challenger [OF a] obtain p where
    p: "item_field og ''PK'' = Some (JStr p)"
    and t1: "t1 = AList.update (p, challenger_sk_of ?ts ?b) ca t"
    by blast
  from put_challenger [OF b] p have
    t2: "t2 = AList.update (p, challenger_sk_of ?ts (?b + 1)) cb t1"
    by auto
  from put_challenger [OF c] p have
    t3: "t' = AList.update (p, challenger_sk_of ?ts (?b + 2)) cc t2"
    by auto
  show ?thesis
    using p sks t1 t2 t3 assemble_fields(3) [OF a(1)] assemble_fields(3) [OF b(1)]
      assemble_fields(3) [OF c(1)]
    by auto
qed

lemma round_keys:
  assumes "py_len ms = Inr 3"
      and "write_complete_challengers E t og ms ci rc = (Inr sks, t')"
  shows "sks = [challenger_sk_of (original_timestamp E og) (base_attempt rc),
                challenger_sk_of (original_timestamp E og) (base_attempt rc + 1),
                challenger_sk_of (original_timestamp E og) (base_attempt rc + 2)]"
proof -
  obtain a b c where "py_iter ms = Inr [a, b, c]"
    using py_len_three [OF assms(1)] by blast
  from round_unrolled [OF this assms(2)] show ?thesis by blast
qed

lemma assemble_entity:
  assumes "assemble_complete_genome E og m ci sk = Inr ch"
  shows "item_field ch ''EntityType'' = Some (JStr ''Challenger'')"
  using assemble_shape [OF assms] by (auto simp: item_field_def)

text \<open>The three challengers of a round that returns, each with its key, its kind and
  its brain, and the table they were written to.\<close>

lemma round_challengers:
  assumes "py_iter ms = Inr [a, b, c]"
      and "write_complete_challengers E t og ms ci rc = (Inr sks, t')"
  shows "\<exists>p ca cb cc.
           item_field og ''PK'' = Some (JStr p) \<and>
           list_all2 (\<lambda>ch (k, m).
               item_field ch ''PK'' = Some (JStr p) \<and>
               item_field ch ''SK'' = Some (JStr k) \<and>
               item_field ch ''EntityType'' = Some (JStr ''Challenger'') \<and>
               item_field ch ''brain'' = Some m)
             [ca, cb, cc] (zip sks [a, b, c]) \<and>
           length sks = 3 \<and>
           t' = AList.update (p, sks ! 2) cc
                  (AList.update (p, sks ! 1) cb (AList.update (p, sks ! 0) ca t))"
proof -
  let ?ts = "original_timestamp E og" and ?b = "base_attempt rc"
  from assms have "write_loop E og ci ?ts ?b 0 [a, b, c] t = (Inr sks, t')"
    by (simp add: write_complete_challengers_def del: write_loop.simps)
  then obtain ca cb cc t1 t2 where
    a: "assemble_complete_genome E og a ci (challenger_sk_of ?ts ?b) = Inr ca"
      "put_item (put_accepts E) t ca = Inr t1"
    and b: "assemble_complete_genome E og b ci (challenger_sk_of ?ts (?b + 1)) = Inr cb"
      "put_item (put_accepts E) t1 cb = Inr t2"
    and c: "assemble_complete_genome E og c ci (challenger_sk_of ?ts (?b + 2)) = Inr cc"
      "put_item (put_accepts E) t2 cc = Inr t'"
    and sks: "sks = [challenger_sk_of ?ts ?b, challenger_sk_of ?ts (?b + 1),
                     challenger_sk_of ?ts (?b + 2)]"
    unfolding write_loop_three by blast
  from put_challenger [OF a] obtain p where
    p: "item_field og ''PK'' = Some (JStr p)"
    and t1: "t1 = AList.update (p, challenger_sk_of ?ts ?b) ca t"
    by blast
  from put_challenger [OF b] p have
    t2: "t2 = AList.update (p, challenger_sk_of ?ts (?b + 1)) cb t1"
    by auto
  from put_challenger [OF c] p have
    t3: "t' = AList.update (p, challenger_sk_of ?ts (?b + 2)) cc t2"
    by auto
  have fa: "item_field ca ''PK'' = Some (JStr p)"
      "item_field ca ''SK'' = Some (JStr (challenger_sk_of ?ts ?b))"
      "item_field ca ''EntityType'' = Some (JStr ''Challenger'')"
      "item_field ca ''brain'' = Some a"
    using assemble_fields [OF a(1)] assemble_entity [OF a(1)] p by simp_all
  have fb: "item_field cb ''PK'' = Some (JStr p)"
      "item_field cb ''SK'' = Some (JStr (challenger_sk_of ?ts (?b + 1)))"
      "item_field cb ''EntityType'' = Some (JStr ''Challenger'')"
      "item_field cb ''brain'' = Some b"
    using assemble_fields [OF b(1)] assemble_entity [OF b(1)] p by simp_all
  have fc: "item_field cc ''PK'' = Some (JStr p)"
      "item_field cc ''SK'' = Some (JStr (challenger_sk_of ?ts (?b + 2)))"
      "item_field cc ''EntityType'' = Some (JStr ''Challenger'')"
      "item_field cc ''brain'' = Some c"
    using assemble_fields [OF c(1)] assemble_entity [OF c(1)] p by simp_all
  show ?thesis
    using p sks t1 t2 t3 fa fb fc by auto
qed

text \<open>With three distinct keys, each of them holds its challenger afterwards and no
  other entry of the table has changed.\<close>

lemma round_stored:
  assumes "py_iter ms = Inr [a, b, c]"
      and "write_complete_challengers E t og ms ci rc = (Inr sks, t')"
      and "distinct sks"
  shows "\<exists>p. item_field og ''PK'' = Some (JStr p) \<and>
           list_all2 (\<lambda>k m. \<exists>ch. map_of t' (p, k) = Some ch \<and>
               item_field ch ''PK'' = Some (JStr p) \<and>
               item_field ch ''SK'' = Some (JStr k) \<and>
               item_field ch ''EntityType'' = Some (JStr ''Challenger'') \<and>
               item_field ch ''brain'' = Some m)
             sks [a, b, c] \<and>
           (\<forall>q k. k \<notin> set sks \<longrightarrow> map_of t' (q, k) = map_of t (q, k))"
proof -
  from round_challengers [OF assms(1,2)] obtain p ca cb cc where
    p: "item_field og ''PK'' = Some (JStr p)"
    and chs: "list_all2 (\<lambda>ch (k, m).
               item_field ch ''PK'' = Some (JStr p) \<and>
               item_field ch ''SK'' = Some (JStr k) \<and>
               item_field ch ''EntityType'' = Some (JStr ''Challenger'') \<and>
               item_field ch ''brain'' = Some m)
             [ca, cb, cc] (zip sks [a, b, c])"
    and len: "length sks = 3"
    and t': "t' = AList.update (p, sks ! 2) cc
                  (AList.update (p, sks ! 1) cb (AList.update (p, sks ! 0) ca t))"
    by blast
  from len obtain k0 k1 k2 where sks: "sks = [k0, k1, k2]"
    by (cases sks; cases "tl sks"; cases "tl (tl sks)") auto
  from assms(3) sks have d: "k0 \<noteq> k1" "k0 \<noteq> k2" "k1 \<noteq> k2" by auto
  have m0: "map_of t' (p, k0) = Some ca" and m1: "map_of t' (p, k1) = Some cb"
    and m2: "map_of t' (p, k2) = Some cc"
    using d by (simp_all add: t' sks update_conv')
  have frame: "\<forall>q k. k \<notin> set sks \<longrightarrow> map_of t' (q, k) = map_of t (q, k)"
    by (auto simp: t' sks update_conv')
  from chs sks m0 m1 m2 have "list_all2 (\<lambda>k m. \<exists>ch. map_of t' (p, k) = Some ch \<and>
               item_field ch ''PK'' = Some (JStr p) \<and>
               item_field ch ''SK'' = Some (JStr k) \<and>
               item_field ch ''EntityType'' = Some (JStr ''Challenger'') \<and>
               item_field ch ''brain'' = Some m)
             sks [a, b, c]"
    by simp
  with p frame show ?thesis by blast
qed

text \<open>
  C3. For the same parent version, a round with retry count 0 that returns gives its
  three challengers the attempt numbers 1, 2, 3, and a round with retry count 1 the
  attempt numbers 4, 5, 6: each round returns these three sort keys, and the table it
  leaves holds under each of them the challenger of that key, carrying the mutation of
  that position, and is otherwise as the round found it. The six sort keys are
  pairwise distinct (whatever the clock says when the parent's SK has no timestamp
  part), so the round with retry count 1 leaves what is stored under the keys of the
  round with retry count 0 as it is.
\<close>

theorem challenger_attempts_do_not_collide:
  assumes "py_iter ms0 = Inr [a0, b0, c0]" and "py_iter ms1 = Inr [a1, b1, c1]"
      and "write_complete_challengers E0 t0 og ms0 ci0 (JInt 0) = (Inr sks0, t0')"
      and "write_complete_challengers E1 t1 og ms1 ci1 (JInt 1) = (Inr sks1, t1')"
  shows "sks0 = [''VERSION#'' @ original_timestamp E0 og @ ''#CHALLENGER#attempt-1'',
                 ''VERSION#'' @ original_timestamp E0 og @ ''#CHALLENGER#attempt-2'',
                 ''VERSION#'' @ original_timestamp E0 og @ ''#CHALLENGER#attempt-3''] \<and>
         sks1 = [''VERSION#'' @ original_timestamp E1 og @ ''#CHALLENGER#attempt-4'',
                 ''VERSION#'' @ original_timestamp E1 og @ ''#CHALLENGER#attempt-5'',
                 ''VERSION#'' @ original_timestamp E1 og @ ''#CHALLENGER#attempt-6''] \<and>
         distinct (sks0 @ sks1) \<and>
         (\<exists>p. item_field og ''PK'' = Some (JStr p) \<and>
            list_all2 (\<lambda>k m. \<exists>ch. map_of t0' (p, k) = Some ch \<and>
                item_field ch ''PK'' = Some (JStr p) \<and>
                item_field ch ''SK'' = Some (JStr k) \<and>
                item_field ch ''EntityType'' = Some (JStr ''Challenger'') \<and>
                item_field ch ''brain'' = Some m)
              sks0 [a0, b0, c0] \<and>
            list_all2 (\<lambda>k m. \<exists>ch. map_of t1' (p, k) = Some ch \<and>
                item_field ch ''PK'' = Some (JStr p) \<and>
                item_field ch ''SK'' = Some (JStr k) \<and>
                item_field ch ''EntityType'' = Some (JStr ''Challenger'') \<and>
                item_field ch ''brain'' = Some m)
              sks1 [a1, b1, c1] \<and>
            (\<forall>q k. k \<notin> set sks0 \<longrightarrow> map_of t0' (q, k) = map_of t0 (q, k)) \<and>
            (\<forall>q k. k \<notin> set sks1 \<longrightarrow> map_of t1' (q, k) = map_of t1 (q, k)) \<and>
            map (\<lambda>k. map_of t1' (p, k)) sks0 = map (\<lambda>k. map_of t1 (p, k)) sks0)"
proof -
  have l0: "py_len ms0 = Inr 3"
    using assms(1) by (cases ms0) (auto simp: map_eq_Cons_conv)
  have l1: "py_len ms1 = Inr 3"
    using assms(2) by (cases ms1) (auto simp: map_eq_Cons_conv)
  have k0: "sks0 = [''VERSION#'' @ original_timestamp E0 og @ ''#CHALLENGER#attempt-1'',
                 ''VERSION#'' @ original_timestamp E0 og @ ''#CHALLENGER#attempt-2'',
                 ''VERSION#'' @ original_timestamp E0 og @ ''#CHALLENGER#attempt-3'']"
    using round_keys [OF l0 assms(3)]
    by (simp add: base_attempt_def challenger_sk_of_def str_int_digits)
  have k1: "sks1 = [''VERSION#'' @ original_timestamp E1 og @ ''#CHALLENGER#attempt-4'',
                 ''VERSION#'' @ original_timestamp E1 og @ ''#CHALLENGER#attempt-5'',
                 ''VERSION#'' @ original_timestamp E1 og @ ''#CHALLENGER#attempt-6'']"
    using round_keys [OF l1 assms(4)]
    by (simp add: base_attempt_def challenger_sk_of_def str_int_digits)
  have "map last (sks0 @ sks1) = ''123456''"
    by (simp add: k0 k1)
  then have "distinct (map last (sks0 @ sks1))"
    by simp
  then have d: "distinct (sks0 @ sks1)"
    by (simp only: distinct_map)
  then have d0: "distinct sks0" and d1: "distinct sks1" and dj: "set sks0 \<inter> set sks1 = {}"
    by simp_all
  from round_stored [OF assms(1) assms(3) d0] obtain p where
    p: "item_field og ''PK'' = Some (JStr p)"
    and s0: "list_all2 (\<lambda>k m. \<exists>ch. map_of t0' (p, k) = Some ch \<and>
                item_field ch ''PK'' = Some (JStr p) \<and>
                item_field ch ''SK'' = Some (JStr k) \<and>
                item_field ch ''EntityType'' = Some (JStr ''Challenger'') \<and>
                item_field ch ''brain'' = Some m)
              sks0 [a0, b0, c0]"
    and f0: "\<forall>q k. k \<notin> set sks0 \<longrightarrow> map_of t0' (q, k) = map_of t0 (q, k)"
    by blast
  from round_stored [OF assms(2) assms(4) d1] p have
    s1: "list_all2 (\<lambda>k m. \<exists>ch. map_of t1' (p, k) = Some ch \<and>
                item_field ch ''PK'' = Some (JStr p) \<and>
                item_field ch ''SK'' = Some (JStr k) \<and>
                item_field ch ''EntityType'' = Some (JStr ''Challenger'') \<and>
                item_field ch ''brain'' = Some m)
              sks1 [a1, b1, c1]"
    and f1: "\<forall>q k. k \<notin> set sks1 \<longrightarrow> map_of t1' (q, k) = map_of t1 (q, k)"
    by auto
  from f1 dj have keep: "map (\<lambda>k. map_of t1' (p, k)) sks0 = map (\<lambda>k. map_of t1 (p, k)) sks0"
    by auto
  from k0 k1 d p s0 s1 f0 f1 keep show ?thesis by blast
qed


lemma first_round_keys:
  "fst (write_complete_challengers sample_env sample_table sample_genome sample_mutations
          sample_critic_issue (JInt 0))
     = Inr [''VERSION#t1#CHALLENGER#attempt-1'', ''VERSION#t1#CHALLENGER#attempt-2'',
            ''VERSION#t1#CHALLENGER#attempt-3'']"
  by code_simp

lemma second_round_keys:
  "fst second_round
     = Inr [''VERSION#t1#CHALLENGER#attempt-4'', ''VERSION#t1#CHALLENGER#attempt-5'',
            ''VERSION#t1#CHALLENGER#attempt-6'']"
  by code_simp

lemma third_round_keys:
  "fst third_round
     = Inr [''VERSION#t1#CHALLENGER#attempt-4'', ''VERSION#t1#CHALLENGER#attempt-5'',
            ''VERSION#t1#CHALLENGER#attempt-6'']"
  by code_simp

lemma sample_mutations_len: "py_len sample_mutations = Inr 3"
  by (simp add: sample_mutations_def)

lemma first_round_returns:
  "fst first_round
     = Inr [''VERSION#t1#CHALLENGER#attempt-1'', ''VERSION#t1#CHALLENGER#attempt-2'',
            ''VERSION#t1#CHALLENGER#attempt-3'']"
  by code_simp

lemma retry_round_returns:
  "fst retry_round
     = Inr [''VERSION#t1#CHALLENGER#attempt-4'', ''VERSION#t1#CHALLENGER#attempt-5'',
            ''VERSION#t1#CHALLENGER#attempt-6'']"
  by code_simp

theorem challenger_attempts_do_not_collide_witness:
  "py_iter sample_mutations = Inr [sample_brain, sample_brain, sample_brain] \<and>
   fst first_round
     = Inr [''VERSION#t1#CHALLENGER#attempt-1'', ''VERSION#t1#CHALLENGER#attempt-2'',
            ''VERSION#t1#CHALLENGER#attempt-3''] \<and>
   fst retry_round
     = Inr [''VERSION#t1#CHALLENGER#attempt-4'', ''VERSION#t1#CHALLENGER#attempt-5'',
            ''VERSION#t1#CHALLENGER#attempt-6''] \<and>
   list_all2 (\<lambda>k m. \<exists>ch. map_of (snd first_round) (''AGENT#a'', k) = Some ch \<and>
       item_field ch ''SK'' = Some (JStr k) \<and>
       item_field ch ''EntityType'' = Some (JStr ''Challenger'') \<and>
       item_field ch ''brain'' = Some m)
     [''VERSION#t1#CHALLENGER#attempt-1'', ''VERSION#t1#CHALLENGER#attempt-2'',
      ''VERSION#t1#CHALLENGER#attempt-3'']
     [sample_brain, sample_brain, sample_brain] \<and>
   list_all2 (\<lambda>k m. \<exists>ch. map_of (snd retry_round) (''AGENT#a'', k) = Some ch \<and>
       item_field ch ''SK'' = Some (JStr k) \<and>
       item_field ch ''EntityType'' = Some (JStr ''Challenger'') \<and>
       item_field ch ''brain'' = Some m)
     [''VERSION#t1#CHALLENGER#attempt-4'', ''VERSION#t1#CHALLENGER#attempt-5'',
      ''VERSION#t1#CHALLENGER#attempt-6'']
     [sample_brain, sample_brain, sample_brain] \<and>
   map (\<lambda>k. map_of (snd retry_round) (''AGENT#a'', k))
     [''VERSION#t1#CHALLENGER#attempt-1'', ''VERSION#t1#CHALLENGER#attempt-2'',
      ''VERSION#t1#CHALLENGER#attempt-3'']
   = map (\<lambda>k. map_of (snd first_round) (''AGENT#a'', k))
     [''VERSION#t1#CHALLENGER#attempt-1'', ''VERSION#t1#CHALLENGER#attempt-2'',
      ''VERSION#t1#CHALLENGER#attempt-3'']"
proof -
  have it: "py_iter sample_mutations = Inr [sample_brain, sample_brain, sample_brain]"
    by (simp add: sample_mutations_def)
  have h0: "write_complete_challengers sample_env sample_table sample_genome sample_mutations
          sample_critic_issue (JInt 0)
     = (Inr [''VERSION#t1#CHALLENGER#attempt-1'', ''VERSION#t1#CHALLENGER#attempt-2'',
            ''VERSION#t1#CHALLENGER#attempt-3''], snd first_round)"
    using first_round_returns by (simp add: prod_eq_iff first_round_def)
  have h1: "write_complete_challengers sample_env (snd first_round) sample_genome
          sample_mutations sample_critic_issue (JInt 1)
     = (Inr [''VERSION#t1#CHALLENGER#attempt-4'', ''VERSION#t1#CHALLENGER#attempt-5'',
            ''VERSION#t1#CHALLENGER#attempt-6''], snd retry_round)"
    using retry_round_returns by (simp add: prod_eq_iff retry_round_def)
  have pk: "item_field sample_genome ''PK'' = Some (JStr ''AGENT#a'')"
    by (simp add: sample_genome_def item_field_def)
  from challenger_attempts_do_not_collide [OF it it h0 h1] obtain p where
    p: "item_field sample_genome ''PK'' = Some (JStr p)"
    and s0: "list_all2 (\<lambda>k m. \<exists>ch. map_of (snd first_round) (p, k) = Some ch \<and>
                item_field ch ''PK'' = Some (JStr p) \<and>
                item_field ch ''SK'' = Some (JStr k) \<and>
                item_field ch ''EntityType'' = Some (JStr ''Challenger'') \<and>
                item_field ch ''brain'' = Some m)
              [''VERSION#t1#CHALLENGER#attempt-1'', ''VERSION#t1#CHALLENGER#attempt-2'',
               ''VERSION#t1#CHALLENGER#attempt-3'']
              [sample_brain, sample_brain, sample_brain]"
    and s1: "list_all2 (\<lambda>k m. \<exists>ch. map_of (snd retry_round) (p, k) = Some ch \<and>
                item_field ch ''PK'' = Some (JStr p) \<and>
                item_field ch ''SK'' = Some (JStr k) \<and>
                item_field ch ''EntityType'' = Some (JStr ''Challenger'') \<and>
                item_field ch ''brain'' = Some m)
              [''VERSION#t1#CHALLENGER#attempt-4'', ''VERSION#t1#CHALLENGER#attempt-5'',
               ''VERSION#t1#CHALLENGER#attempt-6'']
              [sample_brain, sample_brain, sample_brain]"
    and keep: "map (\<lambda>k. map_of (snd retry_round) (p, k))
        [''VERSION#t1#CHALLENGER#attempt-1'', ''VERSION#t1#CHALLENGER#attempt-2'',
         ''VERSION#t1#CHALLENGER#attempt-3'']
      = map (\<lambda>k. map_of (snd first_round) (p, k))
        [''VERSION#t1#CHALLENGER#attempt-1'', ''VERSION#t1#CHALLENGER#attempt-2'',
         ''VERSION#t1#CHALLENGER#attempt-3'']"
    by blast
  from p pk have "p = ''AGENT#a''" by simp
  with s0 s1 keep have
    "list_all2 (\<lambda>k m. \<exists>ch. map_of (snd first_round) (''AGENT#a'', k) = Some ch \<and>
       item_field ch ''SK'' = Some (JStr k) \<and>
       item_field ch ''EntityType'' = Some (JStr ''Challenger'') \<and>
       item_field ch ''brain'' = Some m)
     [''VERSION#t1#CHALLENGER#attempt-1'', ''VERSION#t1#CHALLENGER#attempt-2'',
      ''VERSION#t1#CHALLENGER#attempt-3'']
     [sample_brain, sample_brain, sample_brain]"
    "list_all2 (\<lambda>k m. \<exists>ch. map_of (snd retry_round) (''AGENT#a'', k) = Some ch \<and>
       item_field ch ''SK'' = Some (JStr k) \<and>
       item_field ch ''EntityType'' = Some (JStr ''Challenger'') \<and>
       item_field ch ''brain'' = Some m)
     [''VERSION#t1#CHALLENGER#attempt-4'', ''VERSION#t1#CHALLENGER#attempt-5'',
      ''VERSION#t1#CHALLENGER#attempt-6'']
     [sample_brain, sample_brain, sample_brain]"
    "map (\<lambda>k. map_of (snd retry_round) (''AGENT#a'', k))
        [''VERSION#t1#CHALLENGER#attempt-1'', ''VERSION#t1#CHALLENGER#attempt-2'',
         ''VERSION#t1#CHALLENGER#attempt-3'']
      = map (\<lambda>k. map_of (snd first_round) (''AGENT#a'', k))
        [''VERSION#t1#CHALLENGER#attempt-1'', ''VERSION#t1#CHALLENGER#attempt-2'',
         ''VERSION#t1#CHALLENGER#attempt-3'']"
    by auto
  with it first_round_returns retry_round_returns show ?thesis
    by (intro conjI)
qed

text \<open>
  C10. Every retry count of 1 or more uses base attempt 4. So for a parent whose SK
  has a timestamp part, a later round (for instance retry count 2) returns the same
  three sort keys, attempts 4 to 6, as the second round did; run on the table the
  second round left, its three puts add no key to the table and replace the three
  challengers of the second round by its own.
\<close>

theorem later_rounds_overwrite:
  assumes n: "1 \<le> n" "1 \<le> n'"
      and sk: "item_field og ''SK'' = Some (JStr s)" "split_on CHR ''#'' s = p0 # ts # ps"
      and len: "py_len ms = Inr 3" "py_iter ms' = Inr [b1, b2, b3]"
      and r2: "write_complete_challengers E t og ms ci (JInt n) = (Inr sks, t')"
      and r3: "write_complete_challengers E' t' og ms' ci' (JInt n') = (Inr sks', t'')"
  shows "base_attempt (JInt n) = 4 \<and> base_attempt (JInt n') = 4 \<and>
         sks = [''VERSION#'' @ ts @ ''#CHALLENGER#attempt-4'',
                ''VERSION#'' @ ts @ ''#CHALLENGER#attempt-5'',
                ''VERSION#'' @ ts @ ''#CHALLENGER#attempt-6''] \<and>
         sks' = sks \<and>
         fst ` set t'' = fst ` set t' \<and>
         (\<exists>p c1 c2 c3.
            item_field og ''PK'' = Some (JStr p) \<and>
            map_of t'' (p, sks ! 0) = Some c1 \<and> item_field c1 ''brain'' = Some b1 \<and>
            map_of t'' (p, sks ! 1) = Some c2 \<and> item_field c2 ''brain'' = Some b2 \<and>
            map_of t'' (p, sks ! 2) = Some c3 \<and> item_field c3 ''brain'' = Some b3)"
proof -
  let ?k4 = "''VERSION#'' @ ts @ ''#CHALLENGER#attempt-4''"
  let ?k5 = "''VERSION#'' @ ts @ ''#CHALLENGER#attempt-5''"
  let ?k6 = "''VERSION#'' @ ts @ ''#CHALLENGER#attempt-6''"
  have keys: "challenger_sk_of ts 4 = ?k4" "challenger_sk_of ts 5 = ?k5"
    "challenger_sk_of ts 6 = ?k6"
    by (simp_all add: challenger_sk_of_def str_int_digits)
  obtain a1 a2 a3 where it: "py_iter ms = Inr [a1, a2, a3]"
    using py_len_three [OF len(1)] by blast
  from round_unrolled [OF it r2] obtain p ca cb cc where
    p: "item_field og ''PK'' = Some (JStr p)"
    and sks: "sks = [?k4, ?k5, ?k6]"
    and t': "t' = AList.update (p, ?k6) cc (AList.update (p, ?k5) cb (AList.update (p, ?k4) ca t))"
    by (auto simp: original_timestamp_of_sk [OF sk] base_attempt_later [OF n(1)] keys)
  from round_unrolled [OF len(2) r3] p obtain c1 c2 c3 where
    br: "item_field c1 ''brain'' = Some b1" "item_field c2 ''brain'' = Some b2"
      "item_field c3 ''brain'' = Some b3"
    and sks': "sks' = [?k4, ?k5, ?k6]"
    and t'': "t'' = AList.update (p, ?k6) c3 (AList.update (p, ?k5) c2 (AList.update (p, ?k4) c1 t'))"
    by (auto simp: original_timestamp_of_sk [OF sk] base_attempt_later [OF n(2)] keys)
  have dom: "fst ` set t'' = fst ` set t'"
    unfolding t'' unfolding t' by (auto simp: dom_update)
  have look: "map_of t'' (p, ?k4) = Some c1" "map_of t'' (p, ?k5) = Some c2"
    "map_of t'' (p, ?k6) = Some c3"
    unfolding t'' by (simp_all add: update_conv')
  show ?thesis
    using sks sks' dom p br look base_attempt_later [OF n(1)] base_attempt_later [OF n(2)]
    by auto
qed

theorem later_rounds_overwrite_witness:
  "fst third_round = fst second_round \<and>
   fst second_round
     = Inr [''VERSION#t1#CHALLENGER#attempt-4'', ''VERSION#t1#CHALLENGER#attempt-5'',
            ''VERSION#t1#CHALLENGER#attempt-6''] \<and>
   fst ` set (snd third_round) = fst ` set (snd second_round)"
proof -
  have sk: "item_field sample_genome ''SK'' = Some (JStr ''VERSION#t1'')"
    by (simp add: sample_genome_def item_field_def)
  have parts: "split_on CHR ''#'' ''VERSION#t1'' = ''VERSION'' # ''t1'' # []"
    by simp
  have it: "py_iter sample_mutations = Inr [sample_brain, sample_brain, sample_brain]"
    by (simp add: sample_mutations_def)
  have r2: "write_complete_challengers sample_env sample_table sample_genome sample_mutations
       sample_critic_issue (JInt 1)
     = (Inr [''VERSION#t1#CHALLENGER#attempt-4'', ''VERSION#t1#CHALLENGER#attempt-5'',
            ''VERSION#t1#CHALLENGER#attempt-6''], snd second_round)"
    using second_round_keys by (simp add: prod_eq_iff second_round_def)
  have r3: "write_complete_challengers sample_env (snd second_round) sample_genome
       sample_mutations sample_critic_issue (JInt 2)
     = (Inr [''VERSION#t1#CHALLENGER#attempt-4'', ''VERSION#t1#CHALLENGER#attempt-5'',
            ''VERSION#t1#CHALLENGER#attempt-6''], snd third_round)"
    using third_round_keys by (simp add: prod_eq_iff third_round_def)
  have "(1::int) \<le> 1" "(1::int) \<le> 2" by simp_all
  from later_rounds_overwrite [OF this sk parts sample_mutations_len it r2 r3]
  show ?thesis
    using second_round_keys third_round_keys by simp
qed

subsection \<open>The number of mutations\<close>

text \<open>The fallback generator returns three mutations for every brain that holds a
  persona dict and the two lists it appends to.\<close>

lemma fallback_returns_three:
  assumes "item_field brain ''persona'' = Some (JObj persona)"
      and "item_field brain ''operational_guidelines'' = Some (JList guidelines)"
      and "item_field brain ''style_guide'' = Some (JList style)"
  shows "\<exists>m1 m2 m3. generate_fallback_mutations R brain = Inr (JList [m1, m2, m3])"
proof -
  obtain kvs where b: "brain = JObj kvs"
    using assms(1) by (cases brain) (simp_all add: item_field_def)
  from assms show ?thesis
    unfolding b
    by (simp add: generate_fallback_mutations_def retone_def append_to_def item_field_def
        update_conv' bindE_def)
qed

text \<open>Whatever the handler's check of the number lets through has \<open>len\<close> 3.\<close>

lemma checked_mutations_len:
  assumes "checked_mutations E og ci rc = Inr ms"
  shows "py_len ms = Inr 3"
proof -
  have fb: "py_len x = Inr 3" if "generate_fallback_mutations R b = Inr x" for R b x
    using that
    by (auto simp: generate_fallback_mutations_def bindE_Inr_iff)
  from assms show ?thesis
    by (auto simp: checked_mutations_def bindE_Inr_iff fb split: if_splits)
qed

text \<open>
  C2 (a defect of the code). The model answers with the text \<open>{"mutations": 5}\<close>:
  \<open>extract_json_safely\<close> returns 5, \<open>len(5)\<close> raises TypeError outside every \<open>try\<close>, and
  the handler raises instead of falling back to three mutations; nothing is written.
\<close>

theorem mutator_unsized_reply_raises:
  "mutator_lambda_handler unsized_reply_env sample_table (mutator_event 0)
     = (Inl TypeError, sample_table)"
  by code_simp

section \<open>Properties of the Supervisor\<close>

lemma ticket_sk_not_current: "ticket_sk_of E genome_sk ticket_id \<noteq> ''CURRENT''"
proof
  assume eq: "ticket_sk_of E genome_sk ticket_id = ''CURRENT''"
  have "CHR ''#'' \<in> set (ticket_sk_of E genome_sk ticket_id)"
    by (simp add: ticket_sk_of_def)
  with eq show False by simp
qed

lemma try_put_ticket_cases:
  "try_put_ticket E t item = t \<or>
   (\<exists>k. item_key item = Some k \<and> try_put_ticket E t item = AList.update k item t)"
  by (auto simp: try_put_ticket_def put_item_def split: option.splits)

text \<open>What a call of the Supervisor's failure handler can do to the table: nothing,
  or one ticket under a key that is not \<open>CURRENT\<close>. Its result never names a new
  active version.\<close>

lemma supervisor_failure_effect:
  assumes "supervisor_handle_failure E t pk gsk csk rc reason fc = Inr (res, t1)"
  shows "item_field res ''new_active_version'' = None"
    and "item_field res ''status'' = None"
    and "map_of t1 (p, ''CURRENT'') = map_of t (p, ''CURRENT'')"
    and "map_of t1 k = Some item \<Longrightarrow>
           map_of t k = Some item \<or> item_field item ''EntityType'' = Some (JStr ''Ticket'')"
proof -
  let ?ticket = "supervisor_ticket_item E pk gsk csk reason fc"
  from assms have res: "item_field res ''new_active_version'' = None \<and>
      item_field res ''status'' = None"
    and t1: "t1 = t \<or> t1 = try_put_ticket E t ?ticket"
    by (auto simp: supervisor_handle_failure_def bindE_Inr_iff item_field_def split: if_splits)
  from res show "item_field res ''new_active_version'' = None"
    and "item_field res ''status'' = None" by simp_all
  have key: "snd k' = ticket_sk_of E gsk (supervisor_ticket_id E)" if "item_key ?ticket = Some k'" for k'
    using that by (auto simp: item_key_def supervisor_ticket_item_def split: option.splits json.splits)
  have ent: "item_field ?ticket ''EntityType'' = Some (JStr ''Ticket'')"
    by (simp add: supervisor_ticket_item_def item_field_def)
  from t1 try_put_ticket_cases [of E t ?ticket]
  consider "t1 = t" | k' where "item_key ?ticket = Some k'" "t1 = AList.update k' ?ticket t"
    by auto
  then show "map_of t1 (p, ''CURRENT'') = map_of t (p, ''CURRENT'')"
  proof cases
    case 1
    then show ?thesis by simp
  next
    case 2
    with key [OF 2(1)] ticket_sk_not_current [of E gsk "supervisor_ticket_id E"]
    have "k' \<noteq> (p, ''CURRENT'')" by auto
    with 2 show ?thesis by (simp add: update_conv')
  qed
  assume it: "map_of t1 k = Some item"
  from t1 try_put_ticket_cases [of E t ?ticket]
  consider "t1 = t" | k' where "item_key ?ticket = Some k'" "t1 = AList.update k' ?ticket t"
    by auto
  then show "map_of t k = Some item \<or> item_field item ''EntityType'' = Some (JStr ''Ticket'')"
  proof cases
    case 1
    with it show ?thesis by simp
  next
    case 2
    with it ent show ?thesis by (auto simp: update_conv' split: if_splits)
  qed
qed

lemma escalate_effect:
  assumes "escalate (supervisor_handle_failure E t pk gsk csk rc reason fc) t = (r, t')"
  shows "r = Inr res \<Longrightarrow> item_field res ''new_active_version'' = None \<and> item_field res ''status'' = None"
    and "map_of t' (p, ''CURRENT'') = map_of t (p, ''CURRENT'')"
    and "map_of t' k = Some item \<Longrightarrow>
           map_of t k = Some item \<or> item_field item ''EntityType'' = Some (JStr ''Ticket'')"
proof -
  show "item_field res ''new_active_version'' = None \<and> item_field res ''status'' = None"
    if "r = Inr res"
    using assms that supervisor_failure_effect(1,2) [of E t pk gsk csk rc reason fc res t']
    by (auto simp: escalate_def split: sum.splits)
  show "map_of t' (p, ''CURRENT'') = map_of t (p, ''CURRENT'')"
    using assms supervisor_failure_effect(3) [of E t pk gsk csk rc reason fc _ t' p]
    by (auto simp: escalate_def split: sum.splits)
  show "map_of t k = Some item \<or> item_field item ''EntityType'' = Some (JStr ''Ticket'')"
    if "map_of t' k = Some item"
    using assms that supervisor_failure_effect(4) [of E t pk gsk csk rc reason fc _ t' k item]
    by (auto simp: escalate_def split: sum.splits)
qed

lemma audit_error_unsafe:
  assumes "audit_reply E = Inl e" and "validate_genome_safety E item = Inr (safe, reason)"
  shows "\<not> safe"
  using assms
  by (auto simp: validate_genome_safety_def bindE_Inr_iff read_audit_def split: if_splits)

lemma audit_error_reason:
  assumes "audit_reply E = Inl e" and "structural_check item = Inr False"
  shows "validate_genome_safety E item
           = Inr (False, ''Audit System Offline: '' @ exception_text E e)"
  using assms by (simp add: validate_genome_safety_def bindE_def read_audit_def)

lemma ambiguous_audit_safe:
  assumes "audit_reply E = Inr txt" and "\<not> prefix ''SAFE'' txt"
      and "\<not> py_contains ''VIOLATION'' txt" and "structural_check item = Inr False"
  shows "validate_genome_safety E item = Inr (True, ''Passed (Ambiguous Audit)'')"
  using assms by (simp add: validate_genome_safety_def bindE_def read_audit_def)

lemma not_promoted_on_audit_error:
  assumes "audit_reply E = Inl e"
      and "supervisor_lambda_handler E t event = (r, t')"
  shows "r = Inr res \<Longrightarrow> item_field res ''new_active_version'' = None \<and>
           item_field res ''status'' \<noteq> Some (JStr ''SUCCESS'')"
    and "map_of t' (p, ''CURRENT'') = map_of t (p, ''CURRENT'')"
    and "map_of t' k = Some item \<Longrightarrow>
           map_of t k = Some item \<or> item_field item ''EntityType'' = Some (JStr ''Ticket'')"
proof -
  have all: "(r = Inr res \<longrightarrow> item_field res ''new_active_version'' = None \<and>
           item_field res ''status'' \<noteq> Some (JStr ''SUCCESS'')) \<and>
      map_of t' (p, ''CURRENT'') = map_of t (p, ''CURRENT'') \<and>
      (map_of t' k = Some item \<longrightarrow>
           map_of t k = Some item \<or> item_field item ''EntityType'' = Some (JStr ''Ticket''))"
  proof (cases "supervisor_parse_input event")
    case (Inl err)
    with assms(2) show ?thesis
      by (auto simp: supervisor_lambda_handler_def item_field_def)
  next
    case (Inr i)
    note parsed = this
    let ?missing = "escalate (supervisor_handle_failure E t (in_pk i) (in_genome_sk i)
        (in_chat_sk i) (in_retry_count i)
        (''Winner SK '' @ py_str (py_repr E) (in_winner_sk i) @ '' not found in DB.'') JNull) t"
    show ?thesis
    proof (cases "get_item E t (in_pk i) (in_winner_sk i)")
      case None
      with parsed assms(2) have "?missing = (r, t')"
        by (simp add: supervisor_lambda_handler_def)
      from escalate_effect [OF this] show ?thesis by auto
    next
      case (Some winner_item)
      show ?thesis
      proof (cases "truthy winner_item")
        case False
        with Some parsed assms(2) have "?missing = (r, t')"
          by (simp add: supervisor_lambda_handler_def)
        from escalate_effect [OF this] show ?thesis by auto
      next
        case True
        show ?thesis
        proof (cases "validate_genome_safety E winner_item")
          case (Inl err)
          with True Some parsed assms(2) show ?thesis
            by (auto simp: supervisor_lambda_handler_def)
        next
          case (Inr verdict)
          obtain safe reason where v: "verdict = (safe, reason)" by (cases verdict)
          with Inr audit_error_unsafe [OF assms(1)] have "\<not> safe" by blast
          with v Inr True Some parsed assms(2) have
            "escalate (supervisor_handle_failure E t (in_pk i) (in_genome_sk i)
               (in_chat_sk i) (in_retry_count i)
               (''Supervisor Safety Protocol Violation: '' @ reason) (in_winner_sk i)) t = (r, t')"
            by (simp add: supervisor_lambda_handler_def)
          from escalate_effect [OF this] show ?thesis by auto
        qed
      qed
    qed
  qed
  from all show "r = Inr res \<Longrightarrow> item_field res ''new_active_version'' = None \<and>
           item_field res ''status'' \<noteq> Some (JStr ''SUCCESS'')"
    and "map_of t' (p, ''CURRENT'') = map_of t (p, ''CURRENT'')"
    and "map_of t' k = Some item \<Longrightarrow>
           map_of t k = Some item \<or> item_field item ''EntityType'' = Some (JStr ''Ticket'')"
    by blast+
qed

lemma handler_after_validation:
  assumes "supervisor_parse_input event = Inr i"
      and "get_item E t (in_pk i) (in_winner_sk i) = Some winner_item"
      and "truthy winner_item"
      and "validate_genome_safety E winner_item = Inr (safe, reason)"
  shows "supervisor_lambda_handler E t event =
           (if safe then promote E t i winner_item
            else escalate (supervisor_handle_failure E t (in_pk i) (in_genome_sk i)
                   (in_chat_sk i) (in_retry_count i)
                   (''Supervisor Safety Protocol Violation: '' @ reason) (in_winner_sk i)) t)"
  using assms by (simp add: supervisor_lambda_handler_def)

lemma parsed_keys_truthy:
  assumes "supervisor_parse_input event = Inr i"
  shows "truthy (in_pk i)" and "truthy (in_winner_sk i)"
  using assms
  by (auto simp: supervisor_parse_input_def bindE_Inr_iff split: if_splits)

text \<open>The handler's answer to an audit that raised, for a winner that passed the
  structural check: below the threshold and at or above it.\<close>

lemma audit_error_below_threshold:
  assumes "audit_reply E = Inl e"
      and "supervisor_parse_input event = Inr i"
      and "get_item E t (in_pk i) (in_winner_sk i) = Some winner_item"
      and "truthy winner_item"
      and "structural_check winner_item = Inr False"
      and "in_retry_count i = JInt n" and "n < 1"
  shows "supervisor_lambda_handler E t event =
           (Inr (JObj [(''compliant'', JBool False),
                       (''reason'', JStr (''Supervisor Safety Protocol Violation: Audit System Offline: ''
                          @ exception_text E e))]), t)"
  using handler_after_validation [OF assms(2,3,4) audit_error_reason [OF assms(1,5)]]
    supervisor_below_threshold [OF assms(7)] assms(6)
  by (simp add: escalate_def)

lemma audit_error_at_threshold:
  assumes "audit_reply E = Inl e"
      and "supervisor_parse_input event = Inr i"
      and "get_item E t (in_pk i) (in_winner_sk i) = Some winner_item"
      and "truthy winner_item"
      and "structural_check winner_item = Inr False"
      and "in_retry_count i = JInt n" and "1 \<le> n" and "in_pk i = JStr p"
  shows "supervisor_lambda_handler E t event =
           (Inr (JObj [(''compliant'', JBool False),
                       (''reason'', JStr (''Final Failure. Ticket Created: ''
                          @ supervisor_ticket_id E))]),
            if put_accepts E
                 (supervisor_ticket_item E (JStr p) (in_genome_sk i) (in_chat_sk i)
                    (''Supervisor Safety Protocol Violation: Audit System Offline: ''
                       @ exception_text E e) (in_winner_sk i))
            then AList.update (p, ticket_sk_of E (in_genome_sk i) (supervisor_ticket_id E))
                   (supervisor_ticket_item E (JStr p) (in_genome_sk i) (in_chat_sk i)
                      (''Supervisor Safety Protocol Violation: Audit System Offline: ''
                         @ exception_text E e) (in_winner_sk i)) t
            else t)"
proof -
  let ?reason = "''Supervisor Safety Protocol Violation: Audit System Offline: ''
                       @ exception_text E e"
  let ?ticket = "supervisor_ticket_item E (JStr p) (in_genome_sk i) (in_chat_sk i) ?reason
                   (in_winner_sk i)"
  have put: "try_put_ticket E t ?ticket
      = (if put_accepts E ?ticket
         then AList.update (p, ticket_sk_of E (in_genome_sk i) (supervisor_ticket_id E)) ?ticket t
         else t)"
    by (simp add: try_put_ticket_def put_item_def supervisor_ticket_key)
  from handler_after_validation [OF assms(2,3,4) audit_error_reason [OF assms(1,5)]]
    supervisor_at_threshold [OF assms(7)] assms(6,8) put
  show ?thesis
    by (simp add: escalate_def)
qed

text \<open>
  C5 (as amended). When the safety audit raises, \<open>validate_genome_safety\<close> never
  answers safe, and the handler promotes nothing: its result names no new active
  version, no \<open>CURRENT\<close> pointer changes, and the only item the table can gain is a
  ticket. For a winner that passed the structural check the handler escalates with the
  audit error as reason. Below the threshold (retry count < 1) it returns the
  non-terminal result \<open>{compliant: False, reason}\<close> and leaves the table as it is. At
  or above the threshold it builds an OPEN ticket of type SYSTEM that refers to the
  chat and to the winner as failed challenger, and returns the terminal result that
  names the ticket; the table holds the ticket under \<open><genome_sk>#TICKET#<ticket_id>\<close>
  when the store accepts the write, and is unchanged when the store refuses it. An
  audit answer that neither starts with SAFE nor contains VIOLATION counts as safe,
  and the handler goes on to promote.
\<close>

theorem audit_error_fails_closed:
  "(audit_reply E = Inl e \<longrightarrow>
      (\<forall>safe reason. validate_genome_safety E item = Inr (safe, reason) \<longrightarrow> \<not> safe) \<and>
      (\<forall>res. fst (supervisor_lambda_handler E t event) = Inr res \<longrightarrow>
         item_field res ''new_active_version'' = None \<and>
         item_field res ''status'' \<noteq> Some (JStr ''SUCCESS'')) \<and>
      (\<forall>p. map_of (snd (supervisor_lambda_handler E t event)) (p, ''CURRENT'')
             = map_of t (p, ''CURRENT'')) \<and>
      (\<forall>k written. map_of (snd (supervisor_lambda_handler E t event)) k = Some written \<longrightarrow>
         map_of t k = Some written \<or>
         item_field written ''EntityType'' = Some (JStr ''Ticket'')) \<and>
      (\<forall>i winner_item n p.
         supervisor_parse_input event = Inr i \<longrightarrow>
         get_item E t (in_pk i) (in_winner_sk i) = Some winner_item \<longrightarrow>
         truthy winner_item \<longrightarrow>
         structural_check winner_item = Inr False \<longrightarrow>
         in_retry_count i = JInt n \<longrightarrow>
         in_pk i = JStr p \<longrightarrow>
         (let reason = ''Supervisor Safety Protocol Violation: Audit System Offline: ''
                         @ exception_text E e;
              sk = ticket_sk_of E (in_genome_sk i) (supervisor_ticket_id E);
              ticket = supervisor_ticket_item E (JStr p) (in_genome_sk i) (in_chat_sk i) reason
                         (in_winner_sk i)
          in (n < 1 \<longrightarrow>
                supervisor_lambda_handler E t event
                  = (Inr (JObj [(''compliant'', JBool False), (''reason'', JStr reason)]), t)) \<and>
             (1 \<le> n \<longrightarrow>
                supervisor_lambda_handler E t event
                  = (Inr (JObj [(''compliant'', JBool False),
                                (''reason'', JStr (''Final Failure. Ticket Created: ''
                                   @ supervisor_ticket_id E))]),
                     if put_accepts E ticket then AList.update (p, sk) ticket t else t) \<and>
                open_system_ticket ticket (or_else (in_chat_sk i) ''UNKNOWN'')
                  (in_winner_sk i))))) \<and>
   (audit_reply E = Inr txt \<and> \<not> prefix ''SAFE'' txt \<and> \<not> py_contains ''VIOLATION'' txt \<longrightarrow>
      (structural_check item = Inr False \<longrightarrow>
         validate_genome_safety E item = Inr (True, ''Passed (Ambiguous Audit)'')) \<and>
      (\<forall>i winner_item.
         supervisor_parse_input event = Inr i \<longrightarrow>
         get_item E t (in_pk i) (in_winner_sk i) = Some winner_item \<longrightarrow>
         truthy winner_item \<longrightarrow>
         structural_check winner_item = Inr False \<longrightarrow>
         supervisor_lambda_handler E t event = promote E t i winner_item))"
proof (intro conjI impI allI)
  fix safe reason
  assume "audit_reply E = Inl e" "validate_genome_safety E item = Inr (safe, reason)"
  then show "\<not> safe" by (rule audit_error_unsafe)
next
  fix res
  assume a: "audit_reply E = Inl e"
    and r: "fst (supervisor_lambda_handler E t event) = Inr res"
  have h: "supervisor_lambda_handler E t event
      = (fst (supervisor_lambda_handler E t event), snd (supervisor_lambda_handler E t event))"
    by simp
  from not_promoted_on_audit_error(1) [OF a h r]
  show "item_field res ''new_active_version'' = None"
    and "item_field res ''status'' \<noteq> Some (JStr ''SUCCESS'')" by simp_all
next
  fix p
  assume a: "audit_reply E = Inl e"
  have h: "supervisor_lambda_handler E t event
      = (fst (supervisor_lambda_handler E t event), snd (supervisor_lambda_handler E t event))"
    by simp
  from not_promoted_on_audit_error(2) [OF a h]
  show "map_of (snd (supervisor_lambda_handler E t event)) (p, ''CURRENT'')
             = map_of t (p, ''CURRENT'')" .
next
  fix k written
  assume a: "audit_reply E = Inl e"
    and w: "map_of (snd (supervisor_lambda_handler E t event)) k = Some written"
  have h: "supervisor_lambda_handler E t event
      = (fst (supervisor_lambda_handler E t event), snd (supervisor_lambda_handler E t event))"
    by simp
  from not_promoted_on_audit_error(3) [OF a h w]
  show "map_of t k = Some written \<or>
         item_field written ''EntityType'' = Some (JStr ''Ticket'')" .
next
  fix i winner_item n p
  assume a: "audit_reply E = Inl e"
    and p: "supervisor_parse_input event = Inr i"
    and g: "get_item E t (in_pk i) (in_winner_sk i) = Some winner_item"
    and tr: "truthy winner_item"
    and s: "structural_check winner_item = Inr False"
    and rc: "in_retry_count i = JInt n"
    and pk: "in_pk i = JStr p"
  have ref: "or_else (in_winner_sk i) ''NONE'' = in_winner_sk i"
    using parsed_keys_truthy(2) [OF p] by (simp add: or_else_def)
  show "let reason = ''Supervisor Safety Protocol Violation: Audit System Offline: ''
                         @ exception_text E e;
              sk = ticket_sk_of E (in_genome_sk i) (supervisor_ticket_id E);
              ticket = supervisor_ticket_item E (JStr p) (in_genome_sk i) (in_chat_sk i) reason
                         (in_winner_sk i)
          in (n < 1 \<longrightarrow>
                supervisor_lambda_handler E t event
                  = (Inr (JObj [(''compliant'', JBool False), (''reason'', JStr reason)]), t)) \<and>
             (1 \<le> n \<longrightarrow>
                supervisor_lambda_handler E t event
                  = (Inr (JObj [(''compliant'', JBool False),
                                (''reason'', JStr (''Final Failure. Ticket Created: ''
                                   @ supervisor_ticket_id E))]),
                     if put_accepts E ticket then AList.update (p, sk) ticket t else t) \<and>
                open_system_ticket ticket (or_else (in_chat_sk i) ''UNKNOWN'')
                  (in_winner_sk i))"
    unfolding Let_def
    using audit_error_below_threshold [OF a p g tr s rc]
      audit_error_at_threshold [OF a p g tr s rc _ pk]
      supervisor_ticket_open_system [of E "JStr p" "in_genome_sk i" "in_chat_sk i"
        "''Supervisor Safety Protocol Violation: Audit System Offline: '' @ exception_text E e"
        "in_winner_sk i"] ref
    by simp
next
  assume "audit_reply E = Inr txt \<and> \<not> prefix ''SAFE'' txt \<and> \<not> py_contains ''VIOLATION'' txt"
    and "structural_check item = Inr False"
  then show "validate_genome_safety E item = Inr (True, ''Passed (Ambiguous Audit)'')"
    using ambiguous_audit_safe by blast
next
  fix i winner_item
  assume a: "audit_reply E = Inr txt \<and> \<not> prefix ''SAFE'' txt \<and> \<not> py_contains ''VIOLATION'' txt"
    and p: "supervisor_parse_input event = Inr i"
    and g: "get_item E t (in_pk i) (in_winner_sk i) = Some winner_item"
    and tr: "truthy winner_item"
    and s: "structural_check winner_item = Inr False"
  from a s have "validate_genome_safety E winner_item = Inr (True, ''Passed (Ambiguous Audit)'')"
    using ambiguous_audit_safe by blast
  from handler_after_validation [OF p g tr this]
  show "supervisor_lambda_handler E t event = promote E t i winner_item"
    by simp
qed


lemma sample_winner_sound: "structural_check sample_winner = Inr False"
  by code_simp

lemma audit_down_reply: "audit_reply audit_down_env = Inl (ClientError ''ThrottlingException'')"
  by (simp add: audit_down_env_def)

lemma audit_unclear_reply:
  "audit_reply audit_unclear_env = Inr ''The configuration looks UNSAFE.'' \<and>
   \<not> prefix ''SAFE'' ''The configuration looks UNSAFE.'' \<and>
   \<not> py_contains ''VIOLATION'' ''The configuration looks UNSAFE.''"
  by (simp add: audit_unclear_env_def)

lemma supervisor_event_parsed:
  "supervisor_parse_input (supervisor_event n)
     = Inr \<lparr>in_pk = JStr ''AGENT#a'', in_chat_sk = JStr ''VERSION#t1#CHAT#c1'',
            in_genome_sk = JStr ''VERSION#t1'', in_retry_count = JInt n,
            in_winner_sk = JStr ''VERSION#t1#CHALLENGER#attempt-1'',
            in_promotion_reason = JStr ''Follows the policy.''\<rparr>"
  by (simp add: supervisor_parse_input_def supervisor_event_def unwrap_payload_def bindE_def)

lemma winner_found:
  "get_item audit_down_env supervisor_table (JStr ''AGENT#a'')
     (JStr ''VERSION#t1#CHALLENGER#attempt-1'') = Some sample_winner"
  by code_simp

lemma sample_winner_truthy: "truthy sample_winner"
  by code_simp

theorem audit_error_fails_closed_witness:
  "audit_reply audit_down_env = Inl (ClientError ''ThrottlingException'') \<and>
   supervisor_lambda_handler audit_down_env supervisor_table (supervisor_event 0)
     = (Inr (JObj [(''compliant'', JBool False),
                   (''reason'', JStr (''Supervisor Safety Protocol Violation: Audit System Offline: ''
                      @ exception_text audit_down_env (ClientError ''ThrottlingException'')))]),
        supervisor_table) \<and>
   supervisor_lambda_handler audit_down_env supervisor_table (supervisor_event 1)
     = (Inr (JObj [(''compliant'', JBool False),
                   (''reason'', JStr ''Final Failure. Ticket Created: sup-012345'')]),
        AList.update (''AGENT#a'', ''VERSION#t1#TICKET#sup-012345'')
          (supervisor_ticket_item audit_down_env (JStr ''AGENT#a'') (JStr ''VERSION#t1'')
             (JStr ''VERSION#t1#CHAT#c1'')
             (''Supervisor Safety Protocol Violation: Audit System Offline: ''
                @ exception_text audit_down_env (ClientError ''ThrottlingException''))
             (JStr ''VERSION#t1#CHALLENGER#attempt-1''))
          supervisor_table) \<and>
   map_of (snd (supervisor_lambda_handler audit_down_env supervisor_table (supervisor_event 1)))
       (''AGENT#a'', ''CURRENT'')
     = map_of supervisor_table (''AGENT#a'', ''CURRENT'') \<and>
   validate_genome_safety audit_unclear_env sample_winner
     = Inr (True, ''Passed (Ambiguous Audit)'')"
proof -
  let ?i0 = "\<lparr>in_pk = JStr ''AGENT#a'', in_chat_sk = JStr ''VERSION#t1#CHAT#c1'',
            in_genome_sk = JStr ''VERSION#t1'', in_retry_count = JInt 0,
            in_winner_sk = JStr ''VERSION#t1#CHALLENGER#attempt-1'',
            in_promotion_reason = JStr ''Follows the policy.''\<rparr>"
  let ?i1 = "\<lparr>in_pk = JStr ''AGENT#a'', in_chat_sk = JStr ''VERSION#t1#CHAT#c1'',
            in_genome_sk = JStr ''VERSION#t1'', in_retry_count = JInt 1,
            in_winner_sk = JStr ''VERSION#t1#CHALLENGER#attempt-1'',
            in_promotion_reason = JStr ''Follows the policy.''\<rparr>"
  note down0 = audit_error_fails_closed [of audit_down_env "ClientError ''ThrottlingException''"
      sample_winner supervisor_table "supervisor_event 0" "[]"]
  note down1 = audit_error_fails_closed [of audit_down_env "ClientError ''ThrottlingException''"
      sample_winner supervisor_table "supervisor_event 1" "[]"]
  note unclear = audit_error_fails_closed [of audit_unclear_env "ClientError []"
      sample_winner supervisor_table "supervisor_event 1" "''The configuration looks UNSAFE.''"]
  have accepts: "put_accepts audit_down_env x" for x
    by (simp add: audit_down_env_def sample_env_def)
  have ids: "supervisor_ticket_id audit_down_env = ''sup-012345''"
    "ticket_sk_of audit_down_env (JStr ''VERSION#t1'') ''sup-012345''
       = ''VERSION#t1#TICKET#sup-012345''"
    by (simp_all add: supervisor_ticket_id_def ticket_sk_of_def audit_down_env_def
        sample_env_def)
  from down0 audit_down_reply have
    "\<forall>i winner_item n p.
         supervisor_parse_input (supervisor_event 0) = Inr i \<longrightarrow>
         get_item audit_down_env supervisor_table (in_pk i) (in_winner_sk i) = Some winner_item \<longrightarrow>
         truthy winner_item \<longrightarrow>
         structural_check winner_item = Inr False \<longrightarrow>
         in_retry_count i = JInt n \<longrightarrow>
         in_pk i = JStr p \<longrightarrow>
         (n < 1 \<longrightarrow>
            supervisor_lambda_handler audit_down_env supervisor_table (supervisor_event 0)
              = (Inr (JObj [(''compliant'', JBool False),
                   (''reason'', JStr (''Supervisor Safety Protocol Violation: Audit System Offline: ''
                      @ exception_text audit_down_env (ClientError ''ThrottlingException'')))]),
                 supervisor_table))"
    unfolding Let_def by blast
  from this [rule_format, of ?i0 sample_winner 0 "''AGENT#a''"]
    supervisor_event_parsed [of 0] winner_found sample_winner_truthy sample_winner_sound
  have r0: "supervisor_lambda_handler audit_down_env supervisor_table (supervisor_event 0)
     = (Inr (JObj [(''compliant'', JBool False),
                   (''reason'', JStr (''Supervisor Safety Protocol Violation: Audit System Offline: ''
                      @ exception_text audit_down_env (ClientError ''ThrottlingException'')))]),
        supervisor_table)"
    by simp
  from down1 audit_down_reply have
    "\<forall>i winner_item n p.
         supervisor_parse_input (supervisor_event 1) = Inr i \<longrightarrow>
         get_item audit_down_env supervisor_table (in_pk i) (in_winner_sk i) = Some winner_item \<longrightarrow>
         truthy winner_item \<longrightarrow>
         structural_check winner_item = Inr False \<longrightarrow>
         in_retry_count i = JInt n \<longrightarrow>
         in_pk i = JStr p \<longrightarrow>
         (1 \<le> n \<longrightarrow>
            supervisor_lambda_handler audit_down_env supervisor_table (supervisor_event 1)
              = (Inr (JObj [(''compliant'', JBool False),
                            (''reason'', JStr (''Final Failure. Ticket Created: ''
                               @ supervisor_ticket_id audit_down_env))]),
                 if put_accepts audit_down_env
                      (supervisor_ticket_item audit_down_env (JStr p) (in_genome_sk i)
                         (in_chat_sk i)
                         (''Supervisor Safety Protocol Violation: Audit System Offline: ''
                            @ exception_text audit_down_env (ClientError ''ThrottlingException''))
                         (in_winner_sk i))
                 then AList.update
                        (p, ticket_sk_of audit_down_env (in_genome_sk i)
                              (supervisor_ticket_id audit_down_env))
                        (supervisor_ticket_item audit_down_env (JStr p) (in_genome_sk i)
                           (in_chat_sk i)
                           (''Supervisor Safety Protocol Violation: Audit System Offline: ''
                              @ exception_text audit_down_env (ClientError ''ThrottlingException''))
                           (in_winner_sk i))
                        supervisor_table
                 else supervisor_table))"
    unfolding Let_def by blast
  from this [rule_format, of ?i1 sample_winner 1 "''AGENT#a''"]
    supervisor_event_parsed [of 1] winner_found sample_winner_truthy sample_winner_sound
    accepts ids
  have r1: "supervisor_lambda_handler audit_down_env supervisor_table (supervisor_event 1)
     = (Inr (JObj [(''compliant'', JBool False),
                   (''reason'', JStr ''Final Failure. Ticket Created: sup-012345'')]),
        AList.update (''AGENT#a'', ''VERSION#t1#TICKET#sup-012345'')
          (supervisor_ticket_item audit_down_env (JStr ''AGENT#a'') (JStr ''VERSION#t1'')
             (JStr ''VERSION#t1#CHAT#c1'')
             (''Supervisor Safety Protocol Violation: Audit System Offline: ''
                @ exception_text audit_down_env (ClientError ''ThrottlingException''))
             (JStr ''VERSION#t1#CHALLENGER#attempt-1''))
          supervisor_table)"
    by simp
  from down1 audit_down_reply have cur:
    "map_of (snd (supervisor_lambda_handler audit_down_env supervisor_table (supervisor_event 1)))
       (''AGENT#a'', ''CURRENT'')
     = map_of supervisor_table (''AGENT#a'', ''CURRENT'')"
    by blast
  from unclear audit_unclear_reply sample_winner_sound have amb:
    "validate_genome_safety audit_unclear_env sample_winner
       = Inr (True, ''Passed (Ambiguous Audit)'')"
    by blast
  from audit_down_reply r0 r1 cur amb show ?thesis
    by (intro conjI)
qed

text \<open>
  C5 as stated fails where the store refuses the write of the ticket: the audit
  raises, the retry count is 1, and the handler returns the result that names ticket
  \<open>sup-012345\<close> while the table is as it was and holds no ticket.
\<close>

theorem audit_error_fails_closed_counterexample:
  "audit_reply audit_down_offline_env = Inl (ClientError ''ThrottlingException'') \<and>
   fst (supervisor_lambda_handler audit_down_offline_env supervisor_table (supervisor_event 1))
     = Inr (JObj [(''compliant'', JBool False),
                  (''reason'', JStr ''Final Failure. Ticket Created: sup-012345'')]) \<and>
   snd (supervisor_lambda_handler audit_down_offline_env supervisor_table (supervisor_event 1))
     = supervisor_table \<and>
   map_of supervisor_table (''AGENT#a'', ''VERSION#t1#TICKET#sup-012345'') = None"
proof (intro conjI)
  show "audit_reply audit_down_offline_env = Inl (ClientError ''ThrottlingException'')"
    by (simp add: audit_down_offline_env_def audit_down_env_def)
  show "fst (supervisor_lambda_handler audit_down_offline_env supervisor_table
          (supervisor_event 1))
     = Inr (JObj [(''compliant'', JBool False),
                  (''reason'', JStr ''Final Failure. Ticket Created: sup-012345'')])"
    by code_simp
  show "snd (supervisor_lambda_handler audit_down_offline_env supervisor_table
          (supervisor_event 1))
     = supervisor_table"
    by code_simp
  show "map_of supervisor_table (''AGENT#a'', ''VERSION#t1#TICKET#sup-012345'') = None"
    by (simp add: supervisor_table_def)
qed

subsection \<open>Promotion\<close>

lemma put_sequence_two:
  "put_sequence acc t [a, b] = (Inr u, t') \<longleftrightarrow>
     (\<exists>t1. put_item acc t a = Inr t1 \<and> put_item acc t1 b = Inr t')"
  by (auto split: sum.splits)

lemma mint_sections:
  assumes "mint_genome E i winner = Inr new_genome"
  shows "item_field new_genome ''brain'' = Some (section_or_empty winner ''brain'')"
    and "item_field new_genome ''config'' = Some (section_or_empty winner ''config'')"
    and "item_field new_genome ''resources'' = Some (section_or_empty winner ''resources'')"
    and "item_field new_genome ''capabilities'' = Some (section_or_empty winner ''capabilities'')"
    and "item_field new_genome ''evolution_config''
           = Some (section_or_empty winner ''evolution_config'')"
    and "item_field new_genome ''PK'' = Some (in_pk i)"
    and "item_field new_genome ''SK'' = Some (JStr (new_version_sk E))"
    and "\<exists>md. item_field new_genome ''metadata'' = Some md \<and>
           item_field md ''deployment_state'' = Some (JStr ''ACTIVE'')"
proof -
  from assms obtain kvs where w: "winner = JObj kvs"
    by (cases winner) (simp_all add: mint_genome_def bindE_def)
  from assms show "item_field new_genome ''brain'' = Some (section_or_empty winner ''brain'')"
    and "item_field new_genome ''config'' = Some (section_or_empty winner ''config'')"
    and "item_field new_genome ''resources'' = Some (section_or_empty winner ''resources'')"
    and "item_field new_genome ''capabilities'' = Some (section_or_empty winner ''capabilities'')"
    and "item_field new_genome ''evolution_config''
           = Some (section_or_empty winner ''evolution_config'')"
    and "item_field new_genome ''PK'' = Some (in_pk i)"
    and "item_field new_genome ''SK'' = Some (JStr (new_version_sk E))"
    and "\<exists>md. item_field new_genome ''metadata'' = Some md \<and>
           item_field md ''deployment_state'' = Some (JStr ''ACTIVE'')"
    unfolding mint_genome_def w
    by (auto simp: bindE_Inr_iff item_field_def section_or_empty_def)
qed

lemma sound_has_brain:
  assumes "structural_check item = Inr False"
  shows "\<exists>brain. item_field item ''brain'' = Some brain"
proof -
  from assms obtain kvs where w: "item = JObj kvs"
    by (cases item) (simp_all add: structural_check_def bindE_def)
  show ?thesis
  proof (cases "map_of kvs ''brain''")
    case None
    with assms w show ?thesis
      by (simp add: structural_check_def bindE_def structurally_unsound_def)
  next
    case (Some b)
    with w show ?thesis by (simp add: item_field_def)
  qed
qed

lemma promote_success:
  assumes "promote E t i winner = (Inr res, t')"
      and "item_field res ''status'' = Some (JStr ''SUCCESS'')"
  shows "\<exists>new_genome.
           mint_genome E i winner = Inr new_genome \<and>
           put_sequence (put_accepts E) t [new_genome, pointer_item E (in_pk i)] = (Inr (), t') \<and>
           item_field res ''new_active_version'' = Some (JStr (new_version_sk E))"
proof (cases "mint_genome E i winner")
  case (Inl e)
  with assms(1) show ?thesis by (simp add: promote_def)
next
  case (Inr new_genome)
  obtain w t2 where ps:
    "put_sequence (put_accepts E) t [new_genome, pointer_item E (in_pk i)] = (w, t2)"
    by (cases "put_sequence (put_accepts E) t [new_genome, pointer_item E (in_pk i)]")
  show ?thesis
  proof (cases w)
    case (Inl e)
    with Inr ps assms(1) have
      "escalate (supervisor_handle_failure E t2 (in_pk i) (in_genome_sk i) (in_chat_sk i)
         (in_retry_count i) (''DB Write Failed: '' @ exception_text E e) JNull) t2 = (Inr res, t')"
      by (simp add: promote_def)
    from escalate_effect(1) [OF this] assms(2) show ?thesis by simp
  next
    case (Inr u)
    with \<open>mint_genome E i winner = Inr new_genome\<close> ps assms(1) show ?thesis
      by (auto simp: promote_def item_field_def)
  qed
qed

text \<open>
  C6. When the Supervisor returns SUCCESS, it has minted a new version from the winner
  it read: the sections brain, config, resources, capabilities and evolution_config
  of the new version are those of the winner (\<open>{}\<close> for a section the winner does not
  have; the brain is always there), its deployment state is ACTIVE, and the table is
  the old one after two puts in this order: first the new version under
  \<open>VERSION#<now>Z\<close>, then the \<open>CURRENT\<close> pointer, whose \<open>active_version_sk\<close> is the key of
  the new version.
\<close>

theorem promotion_copies_winner:
  assumes "supervisor_lambda_handler E t event = (Inr res, t')"
      and "item_field res ''status'' = Some (JStr ''SUCCESS'')"
  shows "\<exists>i winner new_genome p.
           supervisor_parse_input event = Inr i \<and> in_pk i = JStr p \<and>
           get_item E t (in_pk i) (in_winner_sk i) = Some winner \<and>
           mint_genome E i winner = Inr new_genome \<and>
           item_field new_genome ''brain'' = item_field winner ''brain'' \<and>
           item_field new_genome ''config'' = Some (section_or_empty winner ''config'') \<and>
           item_field new_genome ''resources'' = Some (section_or_empty winner ''resources'') \<and>
           item_field new_genome ''capabilities''
             = Some (section_or_empty winner ''capabilities'') \<and>
           item_field new_genome ''evolution_config''
             = Some (section_or_empty winner ''evolution_config'') \<and>
           (\<exists>md. item_field new_genome ''metadata'' = Some md \<and>
                 item_field md ''deployment_state'' = Some (JStr ''ACTIVE'')) \<and>
           put_sequence (put_accepts E) t [new_genome, pointer_item E (JStr p)] = (Inr (), t') \<and>
           t' = AList.update (p, ''CURRENT'') (pointer_item E (JStr p))
                  (AList.update (p, new_version_sk E) new_genome t) \<and>
           item_field (pointer_item E (JStr p)) ''active_version_sk''
             = Some (JStr (new_version_sk E)) \<and>
           item_field res ''new_active_version'' = Some (JStr (new_version_sk E))"
proof (cases "supervisor_parse_input event")
  case (Inl e)
  with assms show ?thesis
    by (auto simp: supervisor_lambda_handler_def item_field_def)
next
  case (Inr i)
  note parsed = this
  let ?missing = "escalate (supervisor_handle_failure E t (in_pk i) (in_genome_sk i)
      (in_chat_sk i) (in_retry_count i)
      (''Winner SK '' @ py_str (py_repr E) (in_winner_sk i) @ '' not found in DB.'') JNull) t"
  show ?thesis
  proof (cases "get_item E t (in_pk i) (in_winner_sk i)")
    case None
    with parsed assms(1) have "?missing = (Inr res, t')"
      by (simp add: supervisor_lambda_handler_def)
    from escalate_effect(1) [OF this] assms(2) show ?thesis by simp
  next
    case (Some winner)
    show ?thesis
    proof (cases "truthy winner")
      case False
      with Some parsed assms(1) have "?missing = (Inr res, t')"
        by (simp add: supervisor_lambda_handler_def)
      from escalate_effect(1) [OF this] assms(2) show ?thesis by simp
    next
      case True
      show ?thesis
      proof (cases "validate_genome_safety E winner")
        case (Inl e)
        with True Some parsed assms(1) show ?thesis
          by (auto simp: supervisor_lambda_handler_def)
      next
        case (Inr verdict)
        obtain safe reason where v: "validate_genome_safety E winner = Inr (safe, reason)"
          using Inr by (cases verdict) simp
        show ?thesis
        proof (cases safe)
          case False
          with handler_after_validation [OF parsed Some True v] assms(1) have
            "escalate (supervisor_handle_failure E t (in_pk i) (in_genome_sk i)
               (in_chat_sk i) (in_retry_count i)
               (''Supervisor Safety Protocol Violation: '' @ reason) (in_winner_sk i)) t
             = (Inr res, t')"
            by simp
          from escalate_effect(1) [OF this] assms(2) show ?thesis by simp
        next
          case True
          with handler_after_validation [OF parsed Some \<open>truthy winner\<close> v] assms(1)
          have "promote E t i winner = (Inr res, t')" by simp
          from promote_success [OF this assms(2)] obtain new_genome where
            mint: "mint_genome E i winner = Inr new_genome"
            and puts: "put_sequence (put_accepts E) t [new_genome, pointer_item E (in_pk i)]
                         = (Inr (), t')"
            and nav: "item_field res ''new_active_version'' = Some (JStr (new_version_sk E))"
            by blast
          from puts obtain t1 where
            p1: "put_item (put_accepts E) t new_genome = Inr t1"
            and p2: "put_item (put_accepts E) t1 (pointer_item E (in_pk i)) = Inr t'"
            unfolding put_sequence_two by blast
          from p1 obtain k where k: "item_key new_genome = Some k"
            and t1: "t1 = AList.update k new_genome t"
            unfolding put_item_Inr by blast
          obtain p sk where ksplit: "k = (p, sk)" by (cases k)
          with k mint_sections(6,7) [OF mint] have pk: "in_pk i = JStr p"
            and sk: "sk = new_version_sk E"
            by (simp_all add: item_key_fields)
          from p2 pk have t': "t' = AList.update (p, ''CURRENT'') (pointer_item E (JStr p)) t1"
            by (auto simp: put_item_Inr item_key_def pointer_item_def)
          have corrupt: "structural_check winner = Inr False"
            using v True
            by (auto simp: validate_genome_safety_def bindE_Inr_iff split: if_splits)
          from sound_has_brain [OF this] mint_sections(1) [OF mint]
          have brain: "item_field new_genome ''brain'' = item_field winner ''brain''"
            by (auto simp: section_or_empty_def)
          have ptr: "item_field (pointer_item E (JStr p)) ''active_version_sk''
             = Some (JStr (new_version_sk E))"
            by (simp add: pointer_item_def item_field_def)
          show ?thesis
            using parsed pk Some mint brain mint_sections(2,3,4,5,8) [OF mint] puts t' t1 ksplit sk
              ptr nav
            by auto
        qed
      qed
    qed
  qed
qed

lemma promotion_run:
  "fst (supervisor_lambda_handler audit_safe_env supervisor_table (supervisor_event 0))
     = Inr (JObj [(''status'', JStr ''SUCCESS''),
                  (''compliant'', JBool True),
                  (''new_active_version'', JStr ''VERSION#2026-01-02T03:04:05.000006Z''),
                  (''promotion_reason'', JStr ''Follows the policy.'')])"
  by code_simp

theorem promotion_copies_winner_witness:
  "fst (supervisor_lambda_handler audit_safe_env supervisor_table (supervisor_event 0))
     = Inr (JObj [(''status'', JStr ''SUCCESS''),
                  (''compliant'', JBool True),
                  (''new_active_version'', JStr ''VERSION#2026-01-02T03:04:05.000006Z''),
                  (''promotion_reason'', JStr ''Follows the policy.'')]) \<and>
   (\<exists>i winner new_genome.
      get_item audit_safe_env supervisor_table (in_pk i) (in_winner_sk i) = Some winner \<and>
      mint_genome audit_safe_env i winner = Inr new_genome \<and>
      item_field new_genome ''brain'' = item_field winner ''brain'' \<and>
      snd (supervisor_lambda_handler audit_safe_env supervisor_table (supervisor_event 0))
        = AList.update (''AGENT#a'', ''CURRENT'') (pointer_item audit_safe_env (JStr ''AGENT#a''))
            (AList.update (''AGENT#a'', new_version_sk audit_safe_env) new_genome
               supervisor_table))"
proof -
  let ?run = "supervisor_lambda_handler audit_safe_env supervisor_table (supervisor_event 0)"
  let ?res = "JObj [(''status'', JStr ''SUCCESS''),
                  (''compliant'', JBool True),
                  (''new_active_version'', JStr ''VERSION#2026-01-02T03:04:05.000006Z''),
                  (''promotion_reason'', JStr ''Follows the policy.'')]"
  have run: "?run = (Inr ?res, snd ?run)"
    using promotion_run by (simp add: prod_eq_iff)
  have st: "item_field ?res ''status'' = Some (JStr ''SUCCESS'')"
    by (simp add: item_field_def)
  have pk: "\<And>i. supervisor_parse_input (supervisor_event 0) = Inr i \<Longrightarrow>
      in_pk i = JStr ''AGENT#a''"
    by (auto simp: supervisor_parse_input_def supervisor_event_def unwrap_payload_def bindE_def
        split: if_splits)
  from promotion_copies_winner [OF run st] obtain i winner new_genome p where
    "supervisor_parse_input (supervisor_event 0) = Inr i" "in_pk i = JStr p"
    "get_item audit_safe_env supervisor_table (in_pk i) (in_winner_sk i) = Some winner"
    "mint_genome audit_safe_env i winner = Inr new_genome"
    "item_field new_genome ''brain'' = item_field winner ''brain''"
    "snd ?run = AList.update (p, ''CURRENT'') (pointer_item audit_safe_env (JStr p))
                  (AList.update (p, new_version_sk audit_safe_env) new_genome supervisor_table)"
    by auto
  moreover from this pk have "p = ''AGENT#a''" by auto
  ultimately show ?thesis
    using promotion_run by blast
qed

section \<open>Properties of the Judge\<close>

text \<open>When the compliance call raises, or its text holds no JSON value, the compliance
  stage returns the empty dict.\<close>

lemma compliance_error_gives_empty_dict:
  assumes "compliance_reply E = Inl e \<or> compliance_reply E = Inr NoJsonFound \<or>
           compliance_reply E = Inr JsonInvalid"
      and "run_compliance_stage E genome = Inr compliance_result"
  shows "compliance_result = JObj []"
  using assms
  by (auto simp: run_compliance_stage_def bindE_Inr_iff invoke_judge_model_def)

text \<open>The handler then reads \<open>compliance_result['passed']\<close>, which raises KeyError: the
  failure handler is not called, no result is returned and no ticket is written.\<close>

lemma compliance_error_raises:
  assumes "compliance_reply E = Inl e \<or> compliance_reply E = Inr NoJsonFound \<or>
           compliance_reply E = Inr JsonInvalid"
      and "judge_parse_input E event = Inr i"
      and "judge_winner E t i = Inr (original_genome, Some winner)"
      and "py_item winner ''response'' = Inr response"
      and "run_compliance_stage E original_genome = Inr compliance_result"
  shows "judge_lambda_handler E t event = (Inl (KeyError ''passed''), t)"
proof -
  have "compliance_result = JObj []"
    using compliance_error_gives_empty_dict [OF assms(1) assms(5)] .
  with assms(2-5) show ?thesis
    by (simp add: judge_lambda_handler_def bindE_def)
qed

text \<open>
  C4 (a defect of the code). The comparator has chosen a winner and the compliance
  call raises: the Judge raises \<open>KeyError('passed')\<close> instead of calling the failure
  handler, for retry count 0 and for retry count 1 alike, and the table is left as
  it was (no ticket). And an answer whose \<open>passed\<close> is the string \<open>"no"\<close> instead of a
  boolean is read as passed: the challenger is returned as a success record.
\<close>

theorem compliance_error_not_fail_closed:
  "judge_lambda_handler compliance_down_env judge_table (judge_event 0)
     = (Inl (KeyError ''passed''), judge_table) \<and>
   judge_lambda_handler compliance_down_env judge_table (judge_event 1)
     = (Inl (KeyError ''passed''), judge_table) \<and>
   fst (judge_lambda_handler compliance_text_env judge_table (judge_event 0))
     = Inr (JObj [(''improved'', JBool True),
                  (''selected_challenger_sk'', JStr ''VERSION#t1#CHALLENGER#attempt-1''),
                  (''improved_response'', JStr ''The price is on the tag.''),
                  (''reason'', JStr ''Violates the policy.''),
                  (''retryCount'', JInt 0)])"
  by code_simp

text \<open>For comparison: a well-formed negative answer does route into the failure
  handler.\<close>

lemma compliance_failed_escalates:
  "fst (judge_lambda_handler judge_env judge_table (judge_event 0))
     = Inr (JObj [(''improved'', JBool False),
                  (''reason'', JStr ''Improved logic but failed Compliance: Violates the policy.''),
                  (''retryCount'', JInt 0)])"
  by code_simp

section \<open>Properties of the Serving Path\<close>



subsection \<open>Storing the transcript\<close>





subsection \<open>Emitting the event\<close>



















end
